theory Spec2Isabelle
  imports Main "HOL-Library.AList"
begin

section \<open>The element tree and the path queries of \<open>pycamt/parser.py\<close>\<close>

text \<open>
  The parser works on an lxml element tree. An element has a tag, a text (\<open>node_text\<close>, the
  attribute \<open>.text\<close>) that is \<open>None\<close> when the element carries no character data
  (\<open><Amt/>\<close>), attributes and ordered child elements. A \<open>char\<close> stands for a code point below 256.
\<close>

datatype node = Node (tag: string) (node_text: "string option")
  (attrib: "(string \<times> string) list") (children: "node list")

text \<open>Python values of the extracted records are \<open>str\<close> or \<open>None\<close>; a \<open>dict\<close> is an
  association list in insertion order with distinct keys.\<close>

type_synonym pyval = "string option"
type_synonym pydict = "(string \<times> pyval) list"

datatype error = Camt053ParseError | AttributeError

text \<open>The parser object: \<open>self.tree\<close>, and of \<open>self.namespaces\<close> (the root's \<open>nsmap\<close>)
  the default namespace, which lxml puts in front of every unprefixed step of a path.\<close>

record parser =
  tree :: node
  namespaces :: "string option"

text \<open>The paths of the source are sequences of descendant steps: \<open>.//A//B\<close> is
  \<open>[Tag A, Tag B]\<close>, and \<open>.//A//*\<close> is \<open>[Tag A, Star]\<close>.\<close>

datatype step = Tag string | Star

definition qualify :: "string option \<Rightarrow> string \<Rightarrow> string" where
  "qualify ns t = (case ns of None \<Rightarrow> t | Some uri \<Rightarrow> ''{'' @ uri @ ''}'' @ t)"

fun matches :: "string option \<Rightarrow> step \<Rightarrow> node \<Rightarrow> bool" where
  "matches ns Star n = True"
| "matches ns (Tag t) n = (tag n = qualify ns t)"

text \<open>\<open>Element.iterdescendants\<close>: the proper descendants in document order.\<close>

fun iterdescendants :: "node \<Rightarrow> node list" where
  "iterdescendants (Node t x a cs) = concat (map (\<lambda>c. c # iterdescendants c) cs)"

text \<open>\<open>Element.findall(path, namespaces)\<close>: every step selects, for each element of the
  current result in turn, its matching descendants; results are not deduplicated.\<close>

fun findall :: "string option \<Rightarrow> step list \<Rightarrow> node \<Rightarrow> node list" where
  "findall ns [] n = [n]"
| "findall ns (s # ss) n =
     concat (map (findall ns ss) (filter (matches ns s) (iterdescendants n)))"

text \<open>\<open>Element.find\<close>: the first match, or \<open>None\<close>.\<close>

definition find_first :: "string option \<Rightarrow> step list \<Rightarrow> node \<Rightarrow> node option" where
  "find_first ns path n = (case findall ns path n of [] \<Rightarrow> None | m # _ \<Rightarrow> Some m)"

text \<open>\<open>e.text if e is not None else None\<close>.\<close>

definition text_or_none :: "node option \<Rightarrow> pyval" where
  "text_or_none e = (case e of None \<Rightarrow> None | Some m \<Rightarrow> node_text m)"

section \<open>Dictionaries and strings\<close>

text \<open>\<open>d[k] = v\<close>: replaces the value of an existing key in place, appends a new key.\<close>

definition dict_set :: "string \<Rightarrow> pyval \<Rightarrow> pydict \<Rightarrow> pydict" where
  "dict_set k v = AList.update k v"

text \<open>\<open>{**a, **b}\<close>: the items of \<open>a\<close>, then those of \<open>b\<close> stored one by one.\<close>

definition dict_merge :: "pydict \<Rightarrow> pydict \<Rightarrow> pydict" where
  "dict_merge a b = fold (\<lambda>(k, v). dict_set k v) b a"

text \<open>\<open>{key: value for key, value in data.items() if value is not None}\<close>.\<close>

definition drop_none :: "pydict \<Rightarrow> pydict" where
  "drop_none d = filter (\<lambda>(k, v). v \<noteq> None) d"

text \<open>\<open>str.isspace\<close> on code points below 256, and \<open>str.strip()\<close>.\<close>

definition isspace :: "char \<Rightarrow> bool" where
  "isspace c = (c \<in> set [CHR 0x09, CHR 0x0A, CHR 0x0B, CHR 0x0C, CHR 0x0D,
     CHR 0x1C, CHR 0x1D, CHR 0x1E, CHR 0x1F, CHR 0x20, CHR 0x85, CHR 0xA0])"

definition strip :: "string \<Rightarrow> string" where
  "strip s = rev (dropWhile isspace (rev (dropWhile isspace s)))"

text \<open>\<open>sep.join(xs)\<close>.\<close>

fun join :: "string \<Rightarrow> string list \<Rightarrow> string" where
  "join sep [] = []"
| "join sep [x] = x"
| "join sep (x # y # ys) = x @ sep @ join sep (y # ys)"

section \<open>Container locator and group header\<close>

text \<open>\<open>_find_statements_or_reports\<close>: the loop over the two paths, then the raise.\<close>

fun locate :: "parser \<Rightarrow> step list list \<Rightarrow> error + node list" where
  "locate p [] = Inl Camt053ParseError"
| "locate p (xmlpath # rest) =
     (let stmts = findall (namespaces p) xmlpath (tree p)
      in if length stmts \<noteq> 0 then Inr stmts else locate p rest)"

definition find_statements_or_reports :: "parser \<Rightarrow> error + node list" where
  "find_statements_or_reports p = locate p [[Tag ''Stmt''], [Tag ''Rpt'']]"

text \<open>\<open>_extract_group_header\<close>: \<open>.text\<close> of a \<open>find\<close> that returned \<open>None\<close> raises
  Python's \<open>AttributeError\<close>.\<close>

definition extract_group_header :: "parser \<Rightarrow> node \<Rightarrow> error + pydict" where
  "extract_group_header p grp_hdr =
     (case find_first (namespaces p) [Tag ''MsgId''] grp_hdr of
        None \<Rightarrow> Inl AttributeError
      | Some msg_id \<Rightarrow>
         (case find_first (namespaces p) [Tag ''CreDtTm''] grp_hdr of
            None \<Rightarrow> Inl AttributeError
          | Some cre_dt_tm \<Rightarrow>
              Inr [(''MessageID'', node_text msg_id),
                   (''CreationDateTime'', node_text cre_dt_tm)]))"

definition get_group_header :: "parser \<Rightarrow> error + pydict" where
  "get_group_header p =
     (case find_first (namespaces p) [Tag ''GrpHdr''] (tree p) of
        Some grp_hdr \<Rightarrow> extract_group_header p grp_hdr
      | None \<Rightarrow> Inr [])"

section \<open>Transactions\<close>

text \<open>\<open>_parse_status\<close>.\<close>

definition parse_status :: "parser \<Rightarrow> node option \<Rightarrow> pyval" where
  "parse_status p entry =
     (case entry of
        None \<Rightarrow> None
      | Some e \<Rightarrow>
         (case find_first (namespaces p) [Tag ''Cd''] e of
            Some child_element \<Rightarrow> node_text child_element
          | None \<Rightarrow> node_text e))"

text \<open>\<open>_extract_common_entry_data\<close>: the dict literal is evaluated item by item; the
  five unguarded lookups raise \<open>AttributeError\<close> on a missing node, the guarded ones
  store \<open>None\<close>.\<close>

definition extract_common_entry_data :: "parser \<Rightarrow> node \<Rightarrow> node \<Rightarrow> error + pydict" where
  "extract_common_entry_data p entry statement =
     (let ns = namespaces p in
      case find_first ns [Tag ''AcctSvcrRef''] entry of
        None \<Rightarrow> Inl AttributeError
      | Some ref \<Rightarrow>
      (case find_first ns [Tag ''Amt''] entry of
        None \<Rightarrow> Inl AttributeError
      | Some amt \<Rightarrow>
      (case find_first ns [Tag ''CdtDbtInd''] entry of
        None \<Rightarrow> Inl AttributeError
      | Some ind \<Rightarrow>
      (case find_first ns [Tag ''BookgDt'', Star] entry of
        None \<Rightarrow> Inl AttributeError
      | Some bookg \<Rightarrow>
      (case find_first ns [Tag ''ValDt'', Star] entry of
        None \<Rightarrow> Inl AttributeError
      | Some val \<Rightarrow>
        Inr [(''TransactionID'', node_text ref),
             (''AccountIBAN'',
                text_or_none (find_first ns [Tag ''Acct'', Tag ''Id'', Tag ''IBAN''] statement)),
             (''Amount'', node_text amt),
             (''Currency'', map_of (attrib amt) ''Ccy''),
             (''CreditDebitIndicator'', node_text ind),
             (''ReversalIndicator'', text_or_none (find_first ns [Tag ''RvslInd''] entry)),
             (''Status'', parse_status p (find_first ns [Tag ''Sts''] entry)),
             (''BookingDate'', node_text bookg),
             (''ValueDate'', node_text val),
             (''BankTransactionCode'',
                text_or_none (find_first ns [Tag ''BkTxCd'', Tag ''Domn'', Tag ''Cd''] entry)),
             (''TransactionFamilyCode'',
                text_or_none
                  (find_first ns [Tag ''BkTxCd'', Tag ''Domn'', Tag ''Fmly'', Tag ''Cd''] entry)),
             (''TransactionSubFamilyCode'',
                text_or_none
                  (find_first ns [Tag ''BkTxCd'', Tag ''Domn'', Tag ''Fmly'', Tag ''SubFmlyCd'']
                     entry)),
             (''AdditionalEntryInformation'',
                text_or_none (find_first ns [Tag ''AddtlNtryInf''] entry))])))))"

text \<open>The generator of \<open>RemittanceInformationFull\<close>:
  \<open>rinfo.text.strip() for rinfo in ... if rinfo.text\<close>.\<close>

fun stripped_texts :: "node list \<Rightarrow> string list" where
  "stripped_texts [] = []"
| "stripped_texts (rinfo # rest) =
     (case node_text rinfo of
        None \<Rightarrow> stripped_texts rest
      | Some t \<Rightarrow> if t \<noteq> [] then strip t # stripped_texts rest else stripped_texts rest)"

definition remittance_full :: "string option \<Rightarrow> node \<Rightarrow> pyval" where
  "remittance_full ns tx_detail =
     (if findall ns [Tag ''RmtInf'', Tag ''Ustrd''] tx_detail \<noteq> []
      then Some (join '' '' (stripped_texts (findall ns [Tag ''RmtInf'', Tag ''Ustrd''] tx_detail)))
      else None)"

text \<open>\<open>_extract_transaction_details\<close>: the literal, the two stores under a structured
  block, and the final comprehension.\<close>

definition detail_data :: "string option \<Rightarrow> node \<Rightarrow> pydict" where
  "detail_data ns tx_detail =
     [(''EndToEndId'', text_or_none (find_first ns [Tag ''Refs'', Tag ''EndToEndId''] tx_detail)),
      (''MandateId'', text_or_none (find_first ns [Tag ''Refs'', Tag ''MndtId''] tx_detail)),
      (''Amount'', text_or_none (find_first ns [Tag ''Amt''] tx_detail)),
      (''CreditorName'',
         text_or_none (find_first ns [Tag ''RltdPties'', Tag ''Cdtr'', Tag ''Nm''] tx_detail)),
      (''CreditorIBAN'',
         text_or_none
           (find_first ns [Tag ''RltdPties'', Tag ''CdtrAcct'', Tag ''Id'', Tag ''IBAN''] tx_detail)),
      (''DebtorName'',
         text_or_none (find_first ns [Tag ''RltdPties'', Tag ''Dbtr'', Tag ''Nm''] tx_detail)),
      (''DebtorIBAN'',
         text_or_none
           (find_first ns [Tag ''RltdPties'', Tag ''DbtrAcct'', Tag ''Id'', Tag ''IBAN''] tx_detail)),
      (''PurposeCode'', text_or_none (find_first ns [Tag ''Purp'', Tag ''Cd''] tx_detail)),
      (''RemittanceInformation'',
         text_or_none (find_first ns [Tag ''RmtInf'', Tag ''Ustrd''] tx_detail)),
      (''RemittanceInformationFull'', remittance_full ns tx_detail)]"

definition extract_transaction_details :: "string option \<Rightarrow> node \<Rightarrow> pydict" where
  "extract_transaction_details ns tx_detail =
     (let data = detail_data ns tx_detail in
      drop_none
        (case find_first ns [Tag ''RmtInf'', Tag ''Strd''] tx_detail of
           None \<Rightarrow> data
         | Some structured_remittance_elem \<Rightarrow>
             dict_set ''AdditionalRemittanceInformation''
               (text_or_none (find_first ns [Tag ''AddtlRmtInf''] structured_remittance_elem))
               (dict_set ''RemittanceInformation''
                  (text_or_none
                     (find_first ns [Tag ''CdtrRefInf'', Tag ''Ref''] structured_remittance_elem))
                  data)))"

text \<open>\<open>_extract_transaction\<close>: the inner loop of the 1-n case, the loop over the
  entry-detail groupings, and the function itself. \<open>transactions\<close> is the list the
  loops append to.\<close>

fun tx_detail_loop :: "string option \<Rightarrow> pydict \<Rightarrow> node list \<Rightarrow> pydict list \<Rightarrow> pydict list" where
  "tx_detail_loop ns common_data [] transactions = transactions"
| "tx_detail_loop ns common_data (tx_detail # rest) transactions =
     tx_detail_loop ns common_data rest
       (transactions @ [dict_merge common_data (extract_transaction_details ns tx_detail)])"

fun ntry_detail_loop :: "string option \<Rightarrow> pydict \<Rightarrow> node list \<Rightarrow> pydict list \<Rightarrow> pydict list" where
  "ntry_detail_loop ns common_data [] transactions = transactions"
| "ntry_detail_loop ns common_data (ntry_detail # rest) transactions =
     (let tx_details = findall ns [Tag ''TxDtls''] ntry_detail in
      ntry_detail_loop ns common_data rest
        (if length tx_details = 0 then transactions @ [common_data]
         else if length tx_details = 1 then
           transactions
             @ [dict_merge common_data (extract_transaction_details ns (tx_details ! 0))]
         else tx_detail_loop ns common_data tx_details transactions))"

definition extract_transaction :: "parser \<Rightarrow> node \<Rightarrow> node \<Rightarrow> error + pydict list" where
  "extract_transaction p entry statement =
     (case extract_common_entry_data p entry statement of
        Inl e \<Rightarrow> Inl e
      | Inr common_data \<Rightarrow>
          (let entry_details = findall (namespaces p) [Tag ''NtryDtls''] entry in
           if entry_details = [] then Inr [common_data]
           else Inr (ntry_detail_loop (namespaces p) common_data entry_details [])))"

text \<open>\<open>get_transactions\<close>: the loop over the entries of a statement and the loop over
  the statements; an exception of any entry ends the call.\<close>

fun entry_loop :: "parser \<Rightarrow> node \<Rightarrow> node list \<Rightarrow> pydict list \<Rightarrow> error + pydict list" where
  "entry_loop p statement [] transactions = Inr transactions"
| "entry_loop p statement (entry # rest) transactions =
     (case extract_transaction p entry statement of
        Inl e \<Rightarrow> Inl e
      | Inr ts \<Rightarrow> entry_loop p statement rest (transactions @ ts))"

fun statement_loop :: "parser \<Rightarrow> node list \<Rightarrow> pydict list \<Rightarrow> error + pydict list" where
  "statement_loop p [] transactions = Inr transactions"
| "statement_loop p (statement # rest) transactions =
     (case entry_loop p statement (findall (namespaces p) [Tag ''Ntry''] statement) transactions of
        Inl e \<Rightarrow> Inl e
      | Inr ts \<Rightarrow> statement_loop p rest ts)"

definition get_transactions :: "parser \<Rightarrow> error + pydict list" where
  "get_transactions p =
     (case find_statements_or_reports p of
        Inl e \<Rightarrow> Inl e
      | Inr statements \<Rightarrow> statement_loop p statements [])"

section \<open>Python's \<open>float\<close> and \<open>str\<close>\<close>

text \<open>
  \<open>str(-float(amount_text))\<close> calls two builtins of Python, modelled here in exact
  integer arithmetic. A float is a sign and a magnitude: a binary64 value \<open>m * 2 ^ e\<close>
  with \<open>m < 2 ^ 53\<close> and \<open>e \<ge> -1074\<close> (\<open>2 ^ 52 \<le> m\<close> unless \<open>e = -1074\<close>; zero is
  \<open>Finite 0 0\<close>), infinity, or NaN.
\<close>

definition is_digit :: "char \<Rightarrow> bool" where
  "is_digit c = (c \<in> set ''0123456789'')"

definition float_space :: "char \<Rightarrow> bool" where
  "float_space c = (c \<in> set [CHR 0x09, CHR 0x0A, CHR 0x0B, CHR 0x0C, CHR 0x0D, CHR 0x20])"

definition to_lower :: "char \<Rightarrow> char" where
  "to_lower c =
     (case map_of (zip ''ABCDEFGHIJKLMNOPQRSTUVWXYZ'' ''abcdefghijklmnopqrstuvwxyz'') c of
        Some l \<Rightarrow> l
      | None \<Rightarrow> c)"

definition unsign :: "string \<Rightarrow> string" where
  "unsign s = (if s \<noteq> [] \<and> (hd s = CHR ''-'' \<or> hd s = CHR ''+'') then tl s else s)"

text \<open>The number of digits of \<open>n\<close> in base \<open>b\<close>, the whole part of the logarithm of
  the fraction \<open>N / D\<close>, and the quotient of \<open>n\<close> by \<open>d\<close> rounded to nearest, ties to
  even.\<close>

function count_digits :: "int \<Rightarrow> int \<Rightarrow> nat" where
  "count_digits b n = (if n \<le> 0 \<or> b \<le> 1 then 0 else Suc (count_digits b (n div b)))"
  by pat_completeness auto
termination
  by (relation "measure (\<lambda>(b, n). nat n)") (auto intro: int_div_less_self)

definition ratio_ge_pow :: "int \<Rightarrow> int \<Rightarrow> int \<Rightarrow> int \<Rightarrow> bool" where
  "ratio_ge_pow b k N D = (if 0 \<le> k then D * b ^ nat k \<le> N else D \<le> N * b ^ nat (- k))"

definition floor_log :: "int \<Rightarrow> int \<Rightarrow> int \<Rightarrow> int" where
  "floor_log b N D =
     (let k = int (count_digits b N) - int (count_digits b D)
      in if ratio_ge_pow b k N D then k else k - 1)"

definition rne :: "int \<Rightarrow> int \<Rightarrow> int" where
  "rne n d =
     (let q = n div d; r = n mod d
      in if 2 * r < d then q else if d < 2 * r then q + 1 else if even q then q else q + 1)"

text \<open>The binary64 value nearest to the fraction \<open>N / D > 0\<close> (ties to even, gradual
  underflow, overflow to infinity), and the one read from the decimal \<open>c * 10 ^ j\<close>.\<close>

datatype magnitude = Finite (mantissa: int) (exponent: int) | Infinite | Not_a_number

definition to_double :: "int \<Rightarrow> int \<Rightarrow> magnitude" where
  "to_double N D =
     (let e = max (floor_log 2 N D - 52) (- 1074);
          m = (if 0 \<le> e then rne N (D * 2 ^ nat e) else rne (N * 2 ^ nat (- e)) D);
          m' = (if m = 2 ^ 53 then 2 ^ 52 else m);
          e' = (if m = 2 ^ 53 then e + 1 else e)
      in if m' = 0 then Finite 0 0 else if 971 < e' then Infinite else Finite m' e')"

definition read_decimal :: "int \<Rightarrow> int \<Rightarrow> magnitude" where
  "read_decimal c j =
     (if 0 \<le> j then to_double (c * 10 ^ nat j) 1 else to_double c (10 ^ nat (- j)))"

text \<open>
  \<open>repr\<close> of a finite float: the shortest decimal numeral that reads back as the same
  float and, among those, the nearest to it. With \<open>k\<close> the position of the decimal
  point of the value \<open>Nv / Dv\<close>, the numerals of \<open>n\<close> digits next to it are tried for
  \<open>n\<close> from 1 to 16; 17 digits always read back.
\<close>

definition candidate :: "int \<Rightarrow> int \<Rightarrow> int \<Rightarrow> int \<Rightarrow> int \<Rightarrow> int \<Rightarrow> int option" where
  "candidate m e Nv Dv k n =
     (let num = (if 0 \<le> k - n then Nv else Nv * 10 ^ nat (n - k));
          den = (if 0 \<le> k - n then Dv * 10 ^ nat (k - n) else Dv);
          lo = num div den;
          r = num mod den;
          hi = lo + 1;
          ok_lo = (0 < lo \<and> read_decimal lo (k - n) = Finite m e);
          ok_hi = (read_decimal hi (k - n) = Finite m e);
          hi_closer = (den < 2 * r \<or> (2 * r = den \<and> odd lo))
      in if ok_lo \<and> ok_hi then Some (if hi_closer then hi else lo)
         else if ok_lo then Some lo
         else if ok_hi then Some hi
         else None)"

definition nearest :: "int \<Rightarrow> int \<Rightarrow> int \<Rightarrow> int \<Rightarrow> int" where
  "nearest Nv Dv k n =
     (if 0 \<le> k - n then rne Nv (Dv * 10 ^ nat (k - n)) else rne (Nv * 10 ^ nat (n - k)) Dv)"

primrec first_candidate ::
  "nat \<Rightarrow> int \<Rightarrow> int \<Rightarrow> int \<Rightarrow> int \<Rightarrow> int \<Rightarrow> int \<Rightarrow> int \<times> int" where
  "first_candidate 0 m e Nv Dv k n = (nearest Nv Dv k n, n)"
| "first_candidate (Suc fuel) m e Nv Dv k n =
     (case candidate m e Nv Dv k n of
        Some c \<Rightarrow> (c, n)
      | None \<Rightarrow> first_candidate fuel m e Nv Dv k (n + 1))"

function show_digits :: "int \<Rightarrow> string" where
  "show_digits n =
     (if n < 10 then [''0123456789'' ! nat n]
      else show_digits (n div 10) @ [''0123456789'' ! nat (n mod 10)])"
  by pat_completeness auto
termination
  by (relation "measure nat") (auto intro: int_div_less_self)

definition shortest :: "int \<Rightarrow> int \<Rightarrow> string \<times> int" where
  "shortest m e =
     (let Nv = (if 0 \<le> e then m * 2 ^ nat e else m);
          Dv = (if 0 \<le> e then 1 else 2 ^ nat (- e));
          k = floor_log 10 Nv Dv + 1;
          found = first_candidate 16 m e Nv Dv k 1;
          ds = show_digits (fst found)
      in (rev (dropWhile (\<lambda>c. c = CHR ''0'') (rev ds)), k + (int (length ds) - snd found)))"

text \<open>The digits are printed in fixed notation when the decimal point lies between
  \<open>-3\<close> and \<open>16\<close>, with at least one digit on each side, and otherwise with an exponent
  of at least two digits.\<close>

definition format_repr :: "string \<Rightarrow> int \<Rightarrow> string" where
  "format_repr ds decpt =
     (if decpt \<le> - 4 \<or> 16 < decpt then
        hd ds # (if tl ds = [] then [] else CHR ''.'' # tl ds) @ ''e''
          @ (if decpt - 1 < 0 then ''-'' else ''+'')
          @ (if \<bar>decpt - 1\<bar> < 10 then ''0'' else []) @ show_digits \<bar>decpt - 1\<bar>
      else if decpt \<le> 0 then ''0.'' @ replicate (nat (- decpt)) (CHR ''0'') @ ds
      else if int (length ds) \<le> decpt then
        ds @ replicate (nat decpt - length ds) (CHR ''0'') @ ''.0''
      else take (nat decpt) ds @ ''.'' @ drop (nat decpt) ds)"

definition repr_finite :: "int \<Rightarrow> int \<Rightarrow> string" where
  "repr_finite m e =
     (if m = 0 then ''0.0'' else format_repr (fst (shortest m e)) (snd (shortest m e)))"

definition py_str :: "bool \<Rightarrow> magnitude \<Rightarrow> string" where
  "py_str negative x =
     (if x = Not_a_number then ''nan''
      else (if negative then ''-'' else [])
             @ (if x = Infinite then ''inf'' else repr_finite (mantissa x) (exponent x)))"

text \<open>
  \<open>float\<close> of a string: the white space U+0085 and U+00A0 counts as a blank; an
  underscore is allowed between two digits only; around the numeral white space is
  dropped; the numeral is a sign and then \<open>inf\<close>, \<open>infinity\<close> or \<open>nan\<close> in any case, or
  digits with an optional point and an optional exponent. \<open>None\<close> is \<open>ValueError\<close>.
\<close>

fun underscores_ok :: "char \<Rightarrow> string \<Rightarrow> bool" where
  "underscores_ok prev [] = (prev \<noteq> CHR ''_'')"
| "underscores_ok prev (c # cs) =
     (if c = CHR ''_'' then is_digit prev \<and> underscores_ok c cs
      else if prev = CHR ''_'' then is_digit c \<and> underscores_ok c cs
      else underscores_ok c cs)"

definition digits_value :: "string \<Rightarrow> int" where
  "digits_value ds = foldl (\<lambda>a c. 10 * a + (of_char c - 48)) 0 ds"

definition is_exponent :: "string \<Rightarrow> bool" where
  "is_exponent s =
     (s \<noteq> [] \<and> (hd s = CHR ''e'' \<or> hd s = CHR ''E'')
      \<and> unsign (tl s) \<noteq> [] \<and> list_all is_digit (unsign (tl s)))"

definition exponent_value :: "string \<Rightarrow> int" where
  "exponent_value s =
     (if s = [] then 0
      else if tl s \<noteq> [] \<and> hd (tl s) = CHR ''-'' then - digits_value (unsign (tl s))
      else digits_value (unsign (tl s)))"

definition py_float :: "string \<Rightarrow> (bool \<times> magnitude) option" where
  "py_float s =
     (let spaced = map (\<lambda>c. if c = CHR 0x85 \<or> c = CHR 0xA0 then CHR '' '' else c) s in
      if CHR ''_'' \<in> set spaced \<and> \<not> underscores_ok (CHR 0x00) spaced then None
      else
        let plain = filter (\<lambda>c. c \<noteq> CHR ''_'') spaced;
            body = rev (dropWhile float_space (rev (dropWhile float_space plain)));
            negative = (body \<noteq> [] \<and> hd body = CHR ''-'');
            after_int = dropWhile is_digit (unsign body);
            has_point = (after_int \<noteq> [] \<and> hd after_int = CHR ''.'');
            int_digits = takeWhile is_digit (unsign body);
            frac_digits = (if has_point then takeWhile is_digit (tl after_int) else []);
            rest = (if has_point then dropWhile is_digit (tl after_int) else after_int);
            M = digits_value (int_digits @ frac_digits)
        in if map to_lower (unsign body) \<in> set [''inf'', ''infinity''] then Some (negative, Infinite)
           else if map to_lower (unsign body) = ''nan'' then Some (negative, Not_a_number)
           else if int_digits = [] \<and> frac_digits = [] then None
           else if rest \<noteq> [] \<and> \<not> is_exponent rest then None
           else if M = 0 then Some (negative, Finite 0 0)
           else Some (negative, read_decimal M (exponent_value rest - int (length frac_digits))))"

text \<open>\<open>str(-float(s))\<close>, or \<open>None\<close> when \<open>float\<close> raises \<open>ValueError\<close>.\<close>

definition str_neg_float :: "string \<Rightarrow> string option" where
  "str_neg_float s = map_option (\<lambda>r. py_str (\<not> fst r) (snd r)) (py_float s)"

section \<open>Statement summaries\<close>

text \<open>The sign rule of \<open>get_statement_info\<close>, with \<open>contextlib.suppress(ValueError)\<close>.\<close>

definition apply_sign :: "pyval \<Rightarrow> pyval \<Rightarrow> pyval" where
  "apply_sign amount_text cdt_dbt_indicator =
     (case amount_text of
        None \<Rightarrow> None
      | Some t \<Rightarrow>
          if t \<noteq> [] \<and> cdt_dbt_indicator = Some ''DBIT'' then
            (case str_neg_float t of
               Some negated \<Rightarrow> Some negated
             | None \<Rightarrow> Some t)
          else Some t)"

text \<open>The body of the loop over the balance elements, on the \<open>result\<close> dictionary.\<close>

definition balance_step :: "string option \<Rightarrow> node \<Rightarrow> pydict \<Rightarrow> pydict" where
  "balance_step ns balance_elem result =
     (let balance_type =
            text_or_none (find_first ns [Tag ''Tp'', Tag ''CdOrPrtry'', Tag ''Cd''] balance_elem);
          cdt_dbt_indicator = text_or_none (find_first ns [Tag ''CdtDbtInd''] balance_elem);
          amount_text =
            apply_sign (text_or_none (find_first ns [Tag ''Amt''] balance_elem))
              cdt_dbt_indicator;
          date_text =
            (case find_first ns [Tag ''Dt'', Tag ''DtTm''] balance_elem of
               Some date_time_elem \<Rightarrow> node_text date_time_elem
             | None \<Rightarrow> text_or_none (find_first ns [Tag ''Dt'', Tag ''Dt''] balance_elem))
      in if balance_type = Some ''OPBD'' then
           dict_set ''OpeningBalanceDate'' date_text
             (dict_set ''OpeningBalance'' amount_text result)
         else if balance_type = Some ''CLBD'' then
           dict_set ''ClosingBalanceDate'' date_text
             (dict_set ''ClosingBalance'' amount_text result)
         else result)"

fun balance_loop :: "string option \<Rightarrow> node list \<Rightarrow> pydict \<Rightarrow> pydict" where
  "balance_loop ns [] result = result"
| "balance_loop ns (balance_elem # rest) result =
     balance_loop ns rest (balance_step ns balance_elem result)"

definition statement_info :: "string option \<Rightarrow> node \<Rightarrow> pydict" where
  "statement_info ns stmt =
     balance_loop ns (findall ns [Tag ''Bal''] stmt)
       [(''IBAN'', text_or_none (find_first ns [Tag ''Acct'', Tag ''Id'', Tag ''IBAN''] stmt)),
        (''Currency'', text_or_none (find_first ns [Tag ''Acct'', Tag ''Ccy''] stmt)),
        (''OpeningBalance'', None),
        (''ClosingBalance'', None),
        (''OpeningBalanceDate'', None),
        (''ClosingBalanceDate'', None)]"

fun statement_info_loop :: "string option \<Rightarrow> node list \<Rightarrow> pydict list \<Rightarrow> pydict list" where
  "statement_info_loop ns [] statements = statements"
| "statement_info_loop ns (stmt # rest) statements =
     statement_info_loop ns rest (statements @ [statement_info ns stmt])"

text \<open>\<open>get_statement_info\<close>: the only exception is the locator's.\<close>

definition get_statement_info :: "parser \<Rightarrow> error + pydict list" where
  "get_statement_info p =
     (case find_statements_or_reports p of
        Inl e \<Rightarrow> Inl e
      | Inr stmts \<Rightarrow> Inr (statement_info_loop (namespaces p) stmts []))"

section \<open>The fan-out as the specification words it\<close>


definition detail_keys :: "string list" where
  "detail_keys =
     [''EndToEndId'', ''MandateId'', ''Amount'', ''CreditorName'', ''CreditorIBAN'',
      ''DebtorName'', ''DebtorIBAN'', ''PurposeCode'', ''RemittanceInformation'',
      ''RemittanceInformationFull'', ''AdditionalRemittanceInformation'']"

text \<open>A grouping with no transaction-detail gives the common record alone, otherwise one
  merged record per transaction-detail, in document order.\<close>

definition spec_grouping_records :: "string option \<Rightarrow> pydict \<Rightarrow> node \<Rightarrow> pydict list" where
  "spec_grouping_records ns common grouping =
     (if findall ns [Tag ''TxDtls''] grouping = [] then [common]
      else map (\<lambda>d. dict_merge common (extract_transaction_details ns d))
             (findall ns [Tag ''TxDtls''] grouping))"

text \<open>An entry with no grouping gives the common record, otherwise the records of its
  groupings, in document order.\<close>

definition spec_entry_records :: "string option \<Rightarrow> pydict \<Rightarrow> node \<Rightarrow> pydict list" where
  "spec_entry_records ns common entry =
     (if findall ns [Tag ''NtryDtls''] entry = [] then [common]
      else concat (map (spec_grouping_records ns common) (findall ns [Tag ''NtryDtls''] entry)))"

text \<open>The texts of the unstructured lines, each trimmed, and of these the non-empty
  ones.\<close>

definition spec_trimmed_lines :: "node list \<Rightarrow> string list" where
  "spec_trimmed_lines lines =
     filter (\<lambda>t. t \<noteq> []) (map strip (List.map_filter node_text lines))"

section \<open>Example documents\<close>

text \<open>The default namespace of the example documents.\<close>

definition camt_ns :: string where
  "camt_ns = ''urn:camt.053''"

text \<open>An element of the camt namespace without attributes.\<close>

definition el :: "string \<Rightarrow> string option \<Rightarrow> node list \<Rightarrow> node" where
  "el name t cs = Node (qualify (Some camt_ns) name) t [] cs"

definition amount_el :: "string \<Rightarrow> string \<Rightarrow> node" where
  "amount_el ccy t = Node (qualify (Some camt_ns) ''Amt'') (Some t) [(''Ccy'', ccy)] []"

text \<open>A document with a group header and neither a statement nor a report.\<close>

definition doc_no_container :: parser where
  "doc_no_container =
     \<lparr>tree = el ''Document'' None
        [el ''BkToCstmrStmt'' None
           [el ''GrpHdr'' None
              [el ''MsgId'' (Some ''ABC123'') [],
               el ''CreDtTm'' (Some ''2020-06-23T18:56:25.64Z'') []]]],
      namespaces = Some camt_ns\<rparr>"

text \<open>A statement with two entries: the first has one grouping with one
  transaction-detail, whose amount differs from the entry's; the second has one grouping
  with two transaction-details, the latter with a structured remittance block.\<close>

definition tx_a :: node where
  "tx_a = el ''TxDtls'' None
     [el ''Refs'' None [el ''EndToEndId'' (Some ''E2E-A'') []],
      amount_el ''USD'' ''499.00'',
      el ''RmtInf'' None [el ''Ustrd'' (Some '' a '') [], el ''Ustrd'' (Some ''b'') []]]"

definition tx_b :: node where
  "tx_b = el ''TxDtls'' None [el ''Refs'' None [el ''EndToEndId'' (Some ''E2E-B'') []]]"

definition tx_c :: node where
  "tx_c = el ''TxDtls'' None
     [el ''RmtInf'' None
        [el ''Ustrd'' (Some ''free'') [],
         el ''Strd'' None [el ''CdtrRefInf'' None [el ''Ref'' (Some ''REF1'') []]]]]"

definition entry_one :: node where
  "entry_one = el ''Ntry'' None
     [amount_el ''EUR'' ''500.00'',
      el ''CdtDbtInd'' (Some ''CRDT'') [],
      el ''BookgDt'' None [el ''Dt'' (Some ''2020-06-23'') []],
      el ''ValDt'' None [el ''Dt'' (Some ''2020-06-24'') []],
      el ''AcctSvcrRef'' (Some ''N1'') [],
      el ''NtryDtls'' None [tx_a]]"

definition entry_two :: node where
  "entry_two = el ''Ntry'' None
     [amount_el ''EUR'' ''30.00'',
      el ''CdtDbtInd'' (Some ''DBIT'') [],
      el ''Sts'' (Some ''BOOK'') [],
      el ''BookgDt'' None [el ''Dt'' (Some ''2020-06-25'') []],
      el ''ValDt'' None [el ''Dt'' (Some ''2020-06-26'') []],
      el ''AcctSvcrRef'' (Some ''N2'') [],
      el ''NtryDtls'' None [tx_b, tx_c]]"

definition stmt_fanout :: node where
  "stmt_fanout = el ''Stmt'' None
     [el ''Acct'' None [el ''Id'' None [el ''IBAN'' (Some ''GB33'') []]],
      entry_one, entry_two]"

definition doc_fanout :: parser where
  "doc_fanout =
     \<lparr>tree = el ''Document'' None [el ''BkToCstmrStmt'' None [stmt_fanout]],
      namespaces = Some camt_ns\<rparr>"

text \<open>The common records of the two entries, and the three records of the document.\<close>

definition common_one :: pydict where
  "common_one =
     [(''TransactionID'', Some ''N1''), (''AccountIBAN'', Some ''GB33''),
      (''Amount'', Some ''500.00''), (''Currency'', Some ''EUR''),
      (''CreditDebitIndicator'', Some ''CRDT''), (''ReversalIndicator'', None),
      (''Status'', None), (''BookingDate'', Some ''2020-06-23''),
      (''ValueDate'', Some ''2020-06-24''), (''BankTransactionCode'', None),
      (''TransactionFamilyCode'', None), (''TransactionSubFamilyCode'', None),
      (''AdditionalEntryInformation'', None)]"

definition common_two :: pydict where
  "common_two =
     [(''TransactionID'', Some ''N2''), (''AccountIBAN'', Some ''GB33''),
      (''Amount'', Some ''30.00''), (''Currency'', Some ''EUR''),
      (''CreditDebitIndicator'', Some ''DBIT''), (''ReversalIndicator'', None),
      (''Status'', Some ''BOOK''), (''BookingDate'', Some ''2020-06-25''),
      (''ValueDate'', Some ''2020-06-26''), (''BankTransactionCode'', None),
      (''TransactionFamilyCode'', None), (''TransactionSubFamilyCode'', None),
      (''AdditionalEntryInformation'', None)]"

definition record_a :: pydict where
  "record_a =
     [(''TransactionID'', Some ''N1''), (''AccountIBAN'', Some ''GB33''),
      (''Amount'', Some ''499.00''), (''Currency'', Some ''EUR''),
      (''CreditDebitIndicator'', Some ''CRDT''), (''ReversalIndicator'', None),
      (''Status'', None), (''BookingDate'', Some ''2020-06-23''),
      (''ValueDate'', Some ''2020-06-24''), (''BankTransactionCode'', None),
      (''TransactionFamilyCode'', None), (''TransactionSubFamilyCode'', None),
      (''AdditionalEntryInformation'', None), (''EndToEndId'', Some ''E2E-A''),
      (''RemittanceInformation'', Some '' a ''), (''RemittanceInformationFull'', Some ''a b'')]"

definition record_b :: pydict where
  "record_b = common_two @ [(''EndToEndId'', Some ''E2E-B'')]"

definition record_c :: pydict where
  "record_c =
     common_two @ [(''RemittanceInformation'', Some ''REF1''),
                   (''RemittanceInformationFull'', Some ''free'')]"

text \<open>A statement whose second entry has no booking date.\<close>

definition entry_no_booking :: node where
  "entry_no_booking = el ''Ntry'' None
     [amount_el ''EUR'' ''7.00'',
      el ''CdtDbtInd'' (Some ''CRDT'') [],
      el ''ValDt'' None [el ''Dt'' (Some ''2020-06-28'') []],
      el ''AcctSvcrRef'' (Some ''N3'') []]"

definition stmt_no_booking :: node where
  "stmt_no_booking = el ''Stmt'' None [entry_one, entry_no_booking]"

definition doc_no_booking :: parser where
  "doc_no_booking =
     \<lparr>tree = el ''Document'' None [el ''BkToCstmrStmt'' None [stmt_no_booking]],
      namespaces = Some camt_ns\<rparr>"

text \<open>A group header without creation time.\<close>

definition hdr_no_time :: node where
  "hdr_no_time = el ''GrpHdr'' None [el ''MsgId'' (Some ''ABC123'') []]"

definition doc_hdr_no_time :: parser where
  "doc_hdr_no_time =
     \<lparr>tree = el ''Document'' None [el ''BkToCstmrStmt'' None [hdr_no_time, stmt_fanout]],
      namespaces = Some camt_ns\<rparr>"

text \<open>Transaction-details: a structured block whose free-text child is the empty
  element \<open><AddtlRmtInf/>\<close>; three unstructured lines; one unstructured line.\<close>

definition strd_empty_addtl :: node where
  "strd_empty_addtl = el ''Strd'' None
     [el ''CdtrRefInf'' None [el ''Ref'' (Some ''REF1'') []], el ''AddtlRmtInf'' None []]"

definition tx_empty_addtl :: node where
  "tx_empty_addtl = el ''TxDtls'' None
     [el ''RmtInf'' None [el ''Ustrd'' (Some ''free'') [], strd_empty_addtl]]"

definition strd_no_ref :: node where
  "strd_no_ref = el ''Strd'' None [el ''AddtlRmtInf'' (Some ''more'') []]"

definition tx_no_ref :: node where
  "tx_no_ref = el ''TxDtls'' None
     [el ''RmtInf'' None [el ''Ustrd'' (Some ''free'') [], strd_no_ref]]"

definition tx_three_lines :: node where
  "tx_three_lines = el ''TxDtls'' None
     [el ''RmtInf'' None
        [el ''Ustrd'' (Some ''a'') [], el ''Ustrd'' (Some ''b'') [], el ''Ustrd'' (Some ''c'') []]]"

definition tx_one_line :: node where
  "tx_one_line = el ''TxDtls'' None [el ''RmtInf'' None [el ''Ustrd'' (Some ''x'') []]]"

text \<open>A transaction-detail whose second unstructured line is a single blank.\<close>

definition tx_blank_line :: node where
  "tx_blank_line = el ''TxDtls'' None
     [el ''RmtInf'' None
        [el ''Ustrd'' (Some ''a'') [], el ''Ustrd'' (Some '' '') [], el ''Ustrd'' (Some ''b'') []]]"

text \<open>A statement with a debit closing balance of \<open>100.00\<close> and a debit opening balance
  whose amount is not a number.\<close>

definition bal_closing_debit :: node where
  "bal_closing_debit = el ''Bal'' None
     [el ''Tp'' None [el ''CdOrPrtry'' None [el ''Cd'' (Some ''CLBD'') []]],
      amount_el ''EUR'' ''100.00'',
      el ''CdtDbtInd'' (Some ''DBIT'') [],
      el ''Dt'' None [el ''Dt'' (Some ''2025-07-31'') []]]"

definition bal_opening_text :: node where
  "bal_opening_text = el ''Bal'' None
     [el ''Tp'' None [el ''CdOrPrtry'' None [el ''Cd'' (Some ''OPBD'') []]],
      amount_el ''EUR'' ''abc'',
      el ''CdtDbtInd'' (Some ''DBIT'') [],
      el ''Dt'' None [el ''Dt'' (Some ''2025-07-01'') []]]"

definition doc_debit :: parser where
  "doc_debit =
     \<lparr>tree = el ''Document'' None
        [el ''BkToCstmrStmt'' None
           [el ''Stmt'' None
              [el ''Acct'' None [el ''Id'' None [el ''IBAN'' (Some ''GB33'') []]],
               bal_opening_text, bal_closing_debit]]],
      namespaces = Some camt_ns\<rparr>"

definition empty_summary :: pydict where
  "empty_summary =
     [(''IBAN'', None), (''Currency'', None), (''OpeningBalance'', None),
      (''ClosingBalance'', None), (''OpeningBalanceDate'', None),
      (''ClosingBalanceDate'', None)]"

section \<open>Dictionaries, loops and keys\<close>

text \<open>The paths are kept folded in the proofs below.\<close>

declare findall.simps [simp del]

lemma map_of_dict_merge:
  "distinct (map fst b) \<Longrightarrow>
     map_of (dict_merge a b) k = (case map_of b k of Some v \<Rightarrow> Some v | None \<Rightarrow> map_of a k)"
  unfolding dict_merge_def
proof (induction b arbitrary: a)
  case Nil
  then show ?case by simp
next
  case (Cons x b)
  obtain k' v' where x: "x = (k', v')" by (cases x)
  from Cons.prems x have d: "distinct (map fst b)" and "k' \<notin> fst ` set b" by auto
  then have none: "map_of b k' = None" by (simp add: map_of_eq_None_iff)
  show ?case
    using Cons.IH [OF d, of "dict_set k' v' a"] x none
    by (auto simp: dict_set_def update_conv' split: option.splits)
qed

lemma tx_detail_loop_eq:
  "tx_detail_loop ns c ds acc =
     acc @ map (\<lambda>d. dict_merge c (extract_transaction_details ns d)) ds"
  by (induction ds arbitrary: acc) simp_all

lemma ntry_detail_loop_eq:
  "ntry_detail_loop ns c gs acc = acc @ concat (map (spec_grouping_records ns c) gs)"
proof (induction gs arbitrary: acc)
  case Nil
  then show ?case by simp
next
  case (Cons g gs)
  define ds where "ds = findall ns [Tag ''TxDtls''] g"
  have step: "(if length ds = 0 then acc @ [c]
        else if length ds = 1
          then acc @ [dict_merge c (extract_transaction_details ns (ds ! 0))]
          else tx_detail_loop ns c ds acc)
      = acc @ (if ds = [] then [c]
               else map (\<lambda>d. dict_merge c (extract_transaction_details ns d)) ds)"
  proof (cases ds)
    case Nil
    then show ?thesis by simp
  next
    case (Cons d rest)
    then show ?thesis by (cases rest) (simp_all add: tx_detail_loop_eq)
  qed
  have "ntry_detail_loop ns c (g # gs) acc =
      ntry_detail_loop ns c gs (acc @ spec_grouping_records ns c g)"
    unfolding ntry_detail_loop.simps Let_def step [unfolded ds_def] spec_grouping_records_def ..
  then show ?case by (simp add: Cons.IH)
qed

lemma extract_transaction_eq:
  "extract_common_entry_data p e s = Inr c \<Longrightarrow>
     extract_transaction p e s = Inr (spec_entry_records (namespaces p) c e)"
  by (simp add: extract_transaction_def spec_entry_records_def Let_def ntry_detail_loop_eq)

lemma extract_transaction_error:
  "extract_transaction p e s = Inl err \<Longrightarrow> err = AttributeError"
  by (auto simp: extract_transaction_def extract_common_entry_data_def Let_def
      split: option.splits sum.splits if_splits)

lemma entry_loop_eq:
  "\<forall>e\<in>set es. extract_common_entry_data p e s = Inr (c e) \<Longrightarrow>
     entry_loop p s es acc =
       Inr (acc @ concat (map (\<lambda>e. spec_entry_records (namespaces p) (c e) e) es))"
  by (induction es arbitrary: acc) (simp_all add: extract_transaction_eq)

lemma statement_loop_eq:
  "\<forall>s\<in>set ss. \<forall>e\<in>set (findall (namespaces p) [Tag ''Ntry''] s).
       extract_common_entry_data p e s = Inr (c s e) \<Longrightarrow>
     statement_loop p ss acc =
       Inr (acc @ concat (map (\<lambda>s. concat (map (\<lambda>e. spec_entry_records (namespaces p) (c s e) e)
              (findall (namespaces p) [Tag ''Ntry''] s))) ss))"
proof (induction ss arbitrary: acc)
  case Nil
  then show ?case by simp
next
  case (Cons s ss)
  have "entry_loop p s (findall (namespaces p) [Tag ''Ntry''] s) acc =
      Inr (acc @ concat (map (\<lambda>e. spec_entry_records (namespaces p) (c s e) e)
              (findall (namespaces p) [Tag ''Ntry''] s)))"
    using Cons.prems by (intro entry_loop_eq) simp
  then show ?case using Cons by simp
qed



lemma detail_data_keys:
  "map fst (detail_data ns d) =
     [''EndToEndId'', ''MandateId'', ''Amount'', ''CreditorName'', ''CreditorIBAN'',
      ''DebtorName'', ''DebtorIBAN'', ''PurposeCode'', ''RemittanceInformation'',
      ''RemittanceInformationFull'']"
  by (simp add: detail_data_def)

lemma drop_none_keys: "set (map fst (drop_none d)) \<subseteq> set (map fst d)"
  by (auto simp: drop_none_def)

lemma drop_none_distinct: "distinct (map fst d) \<Longrightarrow> distinct (map fst (drop_none d))"
  by (simp add: drop_none_def distinct_map_filter)

lemma stored_data_keys:
  "map fst (dict_set ''AdditionalRemittanceInformation'' v
       (dict_set ''RemittanceInformation'' w (detail_data ns d))) = detail_keys"
  by (simp add: dict_set_def update_keys detail_data_keys detail_keys_def)

lemma details_distinct: "distinct (map fst (extract_transaction_details ns d))"
proof (cases "find_first ns [Tag ''RmtInf'', Tag ''Strd''] d")
  case None
  then show ?thesis
    by (simp add: extract_transaction_details_def Let_def drop_none_distinct detail_data_keys)
next
  case (Some s)
  then show ?thesis
    by (simp add: extract_transaction_details_def Let_def drop_none_distinct stored_data_keys
        detail_keys_def)
qed

lemma details_keys: "set (map fst (extract_transaction_details ns d)) \<subseteq> set detail_keys"
proof -
  have base: "set (map fst (detail_data ns d)) \<subseteq> set detail_keys"
    by (simp add: detail_data_keys detail_keys_def)
  show ?thesis
  proof (cases "find_first ns [Tag ''RmtInf'', Tag ''Strd''] d")
    case None
    then have "extract_transaction_details ns d = drop_none (detail_data ns d)"
      by (simp add: extract_transaction_details_def Let_def)
    then show ?thesis
      using order_trans [OF drop_none_keys base] by simp
  next
    case (Some s)
    then have "extract_transaction_details ns d =
        drop_none (dict_set ''AdditionalRemittanceInformation''
           (text_or_none (find_first ns [Tag ''AddtlRmtInf''] s))
           (dict_set ''RemittanceInformation''
              (text_or_none (find_first ns [Tag ''CdtrRefInf'', Tag ''Ref''] s))
              (detail_data ns d)))"
      by (simp add: extract_transaction_details_def Let_def)
    then show ?thesis
      using drop_none_keys [of "dict_set ''AdditionalRemittanceInformation''
           (text_or_none (find_first ns [Tag ''AddtlRmtInf''] s))
           (dict_set ''RemittanceInformation''
              (text_or_none (find_first ns [Tag ''CdtrRefInf'', Tag ''Ref''] s))
              (detail_data ns d))"]
      by (simp only: stored_data_keys)
  qed
qed

lemma merge_details_lookup:
  "map_of (dict_merge c (extract_transaction_details ns d)) k =
     (case map_of (extract_transaction_details ns d) k of
        Some v \<Rightarrow> Some v
      | None \<Rightarrow> map_of c k)"
  by (rule map_of_dict_merge [OF details_distinct])

lemma spec_grouping_length:
  "length (spec_grouping_records ns c g) = max 1 (length (findall ns [Tag ''TxDtls''] g))"
  by (cases "findall ns [Tag ''TxDtls''] g") (simp_all add: spec_grouping_records_def)

lemma spec_entry_length:
  "length (spec_entry_records ns c e) =
     (if findall ns [Tag ''NtryDtls''] e = [] then 1
      else sum_list (map (\<lambda>g. max 1 (length (findall ns [Tag ''TxDtls''] g)))
             (findall ns [Tag ''NtryDtls''] e)))"
  by (simp add: spec_entry_records_def length_concat comp_def spec_grouping_length)

lemma spec_entry_member:
  "t \<in> set (spec_entry_records ns c e) \<Longrightarrow>
     t = c \<or> (\<exists>d. t = dict_merge c (extract_transaction_details ns d))"
  by (auto simp: spec_entry_records_def spec_grouping_records_def split: if_splits)

lemma entry_loop_error:
  "entry_loop p s es acc = Inl err \<Longrightarrow> err = AttributeError"
proof (induction es arbitrary: acc)
  case Nil
  then show ?case by simp
next
  case (Cons e es)
  show ?case
  proof (cases "extract_transaction p e s")
    case (Inl x)
    with Cons.prems extract_transaction_error [OF Inl] show ?thesis by simp
  next
    case (Inr ts)
    with Cons.prems have "entry_loop p s es (acc @ ts) = Inl err" by simp
    then show ?thesis by (rule Cons.IH)
  qed
qed

lemma entry_loop_fail:
  "e \<in> set es \<Longrightarrow> extract_transaction p e s = Inl err \<Longrightarrow>
     entry_loop p s es acc = Inl AttributeError"
proof (induction es arbitrary: acc)
  case Nil
  then show ?case by simp
next
  case (Cons x es)
  show ?case
  proof (cases "extract_transaction p x s")
    case (Inl y)
    with extract_transaction_error [OF Inl] show ?thesis by simp
  next
    case (Inr ts)
    with Cons.prems have "e \<in> set es" by auto
    from Cons.IH [OF this Cons.prems(2)] Inr show ?thesis by simp
  qed
qed

lemma statement_loop_fail:
  "s \<in> set ss \<Longrightarrow> e \<in> set (findall (namespaces p) [Tag ''Ntry''] s) \<Longrightarrow>
     extract_transaction p e s = Inl err \<Longrightarrow>
     statement_loop p ss acc = Inl AttributeError"
proof (induction ss arbitrary: acc)
  case Nil
  then show ?case by simp
next
  case (Cons x ss)
  show ?case
  proof (cases "entry_loop p x (findall (namespaces p) [Tag ''Ntry''] x) acc")
    case (Inl y)
    with entry_loop_error [OF Inl] show ?thesis by simp
  next
    case (Inr ts)
    have "s \<noteq> x"
    proof
      assume "s = x"
      with Cons.prems have "entry_loop p x (findall (namespaces p) [Tag ''Ntry''] x) acc
          = Inl AttributeError"
        by (intro entry_loop_fail) auto
      with Inr show False by simp
    qed
    with Cons.prems have "s \<in> set ss" by auto
    from Cons.IH [OF this Cons.prems(2,3)] Inr show ?thesis by simp
  qed
qed




section \<open>The container locator\<close>

lemma find_statements_or_reports_eq:
  "find_statements_or_reports p =
     (if findall (namespaces p) [Tag ''Stmt''] (tree p) \<noteq> []
      then Inr (findall (namespaces p) [Tag ''Stmt''] (tree p))
      else if findall (namespaces p) [Tag ''Rpt''] (tree p) \<noteq> []
      then Inr (findall (namespaces p) [Tag ''Rpt''] (tree p))
      else Inl Camt053ParseError)"
  by (simp add: find_statements_or_reports_def Let_def)

text \<open>
  Claim C8. The locator returns the statement nodes when there is at least one; only
  when there is none does it return the report nodes, when there is at least one; and
  when both searches are empty it raises \<open>Camt053ParseError\<close>, the parser's own error,
  which \<open>get_statement_info\<close> and \<open>get_transactions\<close> then raise too.
\<close>

theorem locator_statement_then_report:
  "find_statements_or_reports p =
     (if findall (namespaces p) [Tag ''Stmt''] (tree p) \<noteq> []
      then Inr (findall (namespaces p) [Tag ''Stmt''] (tree p))
      else if findall (namespaces p) [Tag ''Rpt''] (tree p) \<noteq> []
      then Inr (findall (namespaces p) [Tag ''Rpt''] (tree p))
      else Inl Camt053ParseError)
   \<and> (findall (namespaces p) [Tag ''Stmt''] (tree p) = []
        \<and> findall (namespaces p) [Tag ''Rpt''] (tree p) = [] \<longrightarrow>
      find_statements_or_reports p = Inl Camt053ParseError
      \<and> get_statement_info p = Inl Camt053ParseError
      \<and> get_transactions p = Inl Camt053ParseError)"
  by (simp add: find_statements_or_reports_eq get_statement_info_def get_transactions_def)

theorem locator_statement_then_report_witness:
  "findall (namespaces doc_no_container) [Tag ''Stmt''] (tree doc_no_container) = []
   \<and> findall (namespaces doc_no_container) [Tag ''Rpt''] (tree doc_no_container) = []
   \<and> find_statements_or_reports doc_no_container = Inl Camt053ParseError
   \<and> get_statement_info doc_no_container = Inl Camt053ParseError
   \<and> get_transactions doc_no_container = Inl Camt053ParseError"
proof -
  have none: "findall (namespaces doc_no_container) [Tag ''Stmt''] (tree doc_no_container) = []
      \<and> findall (namespaces doc_no_container) [Tag ''Rpt''] (tree doc_no_container) = []"
    by code_simp
  with locator_statement_then_report [of doc_no_container] show ?thesis
    by blast
qed

section \<open>The fan-out of an entry\<close>

text \<open>
  Claim C4. For every entry whose common record is built (\<open>common\<close>), the records
  emitted for it are: the common record alone when the entry has no entry-detail
  grouping; otherwise, grouping by grouping, one record, the common record, for a
  grouping without transaction-detail, one record, the common record merged with the
  detail, for a grouping with one transaction-detail, and \<open>n\<close> records, the common record
  merged with each detail in turn, for a grouping with \<open>n \<ge> 2\<close> of them. In a merged
  record a key of the detail wins over the same key of the common record.
\<close>

theorem entry_fan_out_count:
  assumes "extract_common_entry_data p entry statement = Inr common"
  shows "\<exists>ts. extract_transaction p entry statement = Inr ts
    \<and> length ts =
        (if findall (namespaces p) [Tag ''NtryDtls''] entry = [] then 1
         else sum_list (map (\<lambda>g. max 1 (length (findall (namespaces p) [Tag ''TxDtls''] g)))
                (findall (namespaces p) [Tag ''NtryDtls''] entry)))
    \<and> (findall (namespaces p) [Tag ''NtryDtls''] entry = [] \<longrightarrow> ts = [common])
    \<and> (findall (namespaces p) [Tag ''NtryDtls''] entry \<noteq> [] \<longrightarrow>
         ts = concat (map (spec_grouping_records (namespaces p) common)
                 (findall (namespaces p) [Tag ''NtryDtls''] entry)))
    \<and> (\<forall>g. findall (namespaces p) [Tag ''TxDtls''] g = [] \<longrightarrow>
           spec_grouping_records (namespaces p) common g = [common])
    \<and> (\<forall>g d. findall (namespaces p) [Tag ''TxDtls''] g = [d] \<longrightarrow>
           spec_grouping_records (namespaces p) common g =
             [dict_merge common (extract_transaction_details (namespaces p) d)])
    \<and> (\<forall>g. 2 \<le> length (findall (namespaces p) [Tag ''TxDtls''] g) \<longrightarrow>
           length (spec_grouping_records (namespaces p) common g) =
             length (findall (namespaces p) [Tag ''TxDtls''] g)
           \<and> (\<forall>i < length (findall (namespaces p) [Tag ''TxDtls''] g).
                 spec_grouping_records (namespaces p) common g ! i =
                   dict_merge common
                     (extract_transaction_details (namespaces p)
                        (findall (namespaces p) [Tag ''TxDtls''] g ! i))))
    \<and> (\<forall>d k. map_of (dict_merge common (extract_transaction_details (namespaces p) d)) k =
           (case map_of (extract_transaction_details (namespaces p) d) k of
              Some v \<Rightarrow> Some v
            | None \<Rightarrow> map_of common k))"
proof -
  have "extract_transaction p entry statement =
      Inr (spec_entry_records (namespaces p) common entry)"
    using assms by (rule extract_transaction_eq)
  moreover have "\<forall>g. 2 \<le> length (findall (namespaces p) [Tag ''TxDtls''] g) \<longrightarrow>
           length (spec_grouping_records (namespaces p) common g) =
             length (findall (namespaces p) [Tag ''TxDtls''] g)
           \<and> (\<forall>i < length (findall (namespaces p) [Tag ''TxDtls''] g).
                 spec_grouping_records (namespaces p) common g ! i =
                   dict_merge common
                     (extract_transaction_details (namespaces p)
                        (findall (namespaces p) [Tag ''TxDtls''] g ! i)))"
    by (auto simp: spec_grouping_records_def)
  moreover note spec_entry_length [of "namespaces p" common entry]
  ultimately show ?thesis
    by (simp add: spec_entry_records_def spec_grouping_records_def merge_details_lookup)
qed

theorem entry_fan_out_count_witness:
  "extract_common_entry_data doc_fanout entry_two stmt_fanout = Inr common_two
   \<and> map (\<lambda>g. length (findall (namespaces doc_fanout) [Tag ''TxDtls''] g))
       (findall (namespaces doc_fanout) [Tag ''NtryDtls''] entry_two) = [2]
   \<and> extract_transaction doc_fanout entry_two stmt_fanout = Inr [record_b, record_c]"
proof -
  have c: "extract_common_entry_data doc_fanout entry_two stmt_fanout = Inr common_two"
    by code_simp
  have n: "map (\<lambda>g. length (findall (namespaces doc_fanout) [Tag ''TxDtls''] g))
       (findall (namespaces doc_fanout) [Tag ''NtryDtls''] entry_two) = [2]"
    by code_simp
  have r: "concat (map (spec_grouping_records (namespaces doc_fanout) common_two)
       (findall (namespaces doc_fanout) [Tag ''NtryDtls''] entry_two)) = [record_b, record_c]"
    by code_simp
  from n have "findall (namespaces doc_fanout) [Tag ''NtryDtls''] entry_two \<noteq> []"
    by auto
  with entry_fan_out_count [OF c] r have
    "extract_transaction doc_fanout entry_two stmt_fanout = Inr [record_b, record_c]"
    by auto
  with c n show ?thesis by blast
qed

text \<open>
  Claim C9. When every entry's common record is built, the list returned by
  \<open>get_transactions\<close> is the concatenation, statement by statement and entry by entry
  in document order, of the records of each entry, which are themselves the records of
  its groupings and their transaction-details in document order.
\<close>

theorem transactions_document_order:
  assumes "find_statements_or_reports p = Inr statements"
    and "\<forall>s\<in>set statements. \<forall>e\<in>set (findall (namespaces p) [Tag ''Ntry''] s).
           extract_common_entry_data p e s = Inr (common s e)"
  shows "get_transactions p =
      Inr (concat (map (\<lambda>s. concat (map (\<lambda>e. spec_entry_records (namespaces p) (common s e) e)
              (findall (namespaces p) [Tag ''Ntry''] s))) statements))
    \<and> (\<forall>c e. spec_entry_records (namespaces p) c e =
          (if findall (namespaces p) [Tag ''NtryDtls''] e = [] then [c]
           else concat (map
             (\<lambda>g. if findall (namespaces p) [Tag ''TxDtls''] g = [] then [c]
                  else map (\<lambda>d. dict_merge c (extract_transaction_details (namespaces p) d))
                         (findall (namespaces p) [Tag ''TxDtls''] g))
             (findall (namespaces p) [Tag ''NtryDtls''] e))))"
proof -
  have "statement_loop p statements [] =
      Inr ([] @ concat (map (\<lambda>s. concat (map (\<lambda>e. spec_entry_records (namespaces p) (common s e) e)
              (findall (namespaces p) [Tag ''Ntry''] s))) statements))"
    using assms(2) by (rule statement_loop_eq)
  with assms(1) have "get_transactions p =
      Inr (concat (map (\<lambda>s. concat (map (\<lambda>e. spec_entry_records (namespaces p) (common s e) e)
              (findall (namespaces p) [Tag ''Ntry''] s))) statements))"
    by (simp add: get_transactions_def)
  moreover have "\<forall>c e. spec_entry_records (namespaces p) c e =
          (if findall (namespaces p) [Tag ''NtryDtls''] e = [] then [c]
           else concat (map
             (\<lambda>g. if findall (namespaces p) [Tag ''TxDtls''] g = [] then [c]
                  else map (\<lambda>d. dict_merge c (extract_transaction_details (namespaces p) d))
                         (findall (namespaces p) [Tag ''TxDtls''] g))
             (findall (namespaces p) [Tag ''NtryDtls''] e)))"
    unfolding spec_entry_records_def spec_grouping_records_def by simp
  ultimately show ?thesis by (simp only: simp_thms)
qed

theorem transactions_document_order_witness:
  "find_statements_or_reports doc_fanout = Inr [stmt_fanout]
   \<and> findall (namespaces doc_fanout) [Tag ''Ntry''] stmt_fanout = [entry_one, entry_two]
   \<and> extract_transaction doc_fanout entry_one stmt_fanout = Inr [record_a]
   \<and> extract_transaction doc_fanout entry_two stmt_fanout = Inr [record_b, record_c]
   \<and> get_transactions doc_fanout = Inr [record_a, record_b, record_c]"
proof -
  let ?common = "\<lambda>s e. case extract_common_entry_data doc_fanout e s of Inr c \<Rightarrow> c | Inl x \<Rightarrow> []"
  have st: "find_statements_or_reports doc_fanout = Inr [stmt_fanout]"
    by code_simp
  have en: "findall (namespaces doc_fanout) [Tag ''Ntry''] stmt_fanout = [entry_one, entry_two]"
    by code_simp
  have c1: "extract_common_entry_data doc_fanout entry_one stmt_fanout = Inr common_one"
    by code_simp
  have c2: "extract_common_entry_data doc_fanout entry_two stmt_fanout = Inr common_two"
    by code_simp
  have r1: "spec_entry_records (namespaces doc_fanout) common_one entry_one = [record_a]"
    by code_simp
  have r2: "spec_entry_records (namespaces doc_fanout) common_two entry_two
      = [record_b, record_c]"
    by code_simp
  have e1: "extract_transaction doc_fanout entry_one stmt_fanout = Inr [record_a]"
    using extract_transaction_eq [OF c1] r1 by simp
  have e2: "extract_transaction doc_fanout entry_two stmt_fanout = Inr [record_b, record_c]"
    using extract_transaction_eq [OF c2] r2 by simp
  have "\<forall>s\<in>set [stmt_fanout]. \<forall>e\<in>set (findall (namespaces doc_fanout) [Tag ''Ntry''] s).
      extract_common_entry_data doc_fanout e s = Inr (?common s e)"
    using c1 c2 by (simp add: en)
  from transactions_document_order [OF st this]
  have "get_transactions doc_fanout = Inr [record_a, record_b, record_c]"
    using c1 c2 r1 r2 by (simp add: en)
  with st en e1 e2 show ?thesis by blast
qed

text \<open>
  Claim C10. The detail extraction never has a \<open>Currency\<close> key, so merging a detail
  into the common record leaves \<open>Currency\<close> as it is: the \<open>Ccy\<close> attribute of the
  entry's amount node, for every record emitted for the entry, also when the detail
  overrides \<open>Amount\<close>.
\<close>

theorem currency_unchanged_by_merge:
  assumes "extract_common_entry_data p entry statement = Inr common"
  shows "''Currency'' \<notin> fst ` set (extract_transaction_details (namespaces p) d)
    \<and> map_of (dict_merge common (extract_transaction_details (namespaces p) d)) ''Currency''
        = map_of common ''Currency''
    \<and> (\<exists>amt. find_first (namespaces p) [Tag ''Amt''] entry = Some amt
          \<and> map_of common ''Currency'' = Some (map_of (attrib amt) ''Ccy''))
    \<and> (\<exists>ts. extract_transaction p entry statement = Inr ts
          \<and> (\<forall>t\<in>set ts. map_of t ''Currency'' = map_of common ''Currency''))"
proof -
  have nokey: "''Currency'' \<notin> fst ` set (extract_transaction_details (namespaces p) d')" for d'
  proof -
    have "''Currency'' \<notin> set detail_keys" by (simp add: detail_keys_def)
    with details_keys [of "namespaces p" d'] show ?thesis by auto
  qed
  have keep: "map_of (dict_merge common (extract_transaction_details (namespaces p) d')) ''Currency''
        = map_of common ''Currency''" for d'
    using nokey [of d'] by (simp add: merge_details_lookup map_of_eq_None_iff [THEN iffD2])
  have src: "\<exists>amt. find_first (namespaces p) [Tag ''Amt''] entry = Some amt
          \<and> map_of common ''Currency'' = Some (map_of (attrib amt) ''Ccy'')"
    using assms
    by (auto simp: extract_common_entry_data_def Let_def split: option.splits)
  have "\<forall>t\<in>set (spec_entry_records (namespaces p) common entry).
      map_of t ''Currency'' = map_of common ''Currency''"
    using keep by (auto dest!: spec_entry_member)
  with extract_transaction_eq [OF assms] nokey keep src show ?thesis by simp
qed

theorem currency_unchanged_by_merge_witness:
  "extract_common_entry_data doc_fanout entry_one stmt_fanout = Inr common_one
   \<and> map_of (extract_transaction_details (namespaces doc_fanout) tx_a) ''Amount''
       = Some (Some ''499.00'')
   \<and> map_of (dict_merge common_one (extract_transaction_details (namespaces doc_fanout) tx_a))
        ''Amount'' = Some (Some ''499.00'')
   \<and> map_of (dict_merge common_one (extract_transaction_details (namespaces doc_fanout) tx_a))
        ''Currency'' = Some (Some ''EUR'')"
proof -
  have c: "extract_common_entry_data doc_fanout entry_one stmt_fanout = Inr common_one"
    by code_simp
  have a: "map_of (extract_transaction_details (namespaces doc_fanout) tx_a) ''Amount''
       = Some (Some ''499.00'')"
    by code_simp
  have m: "map_of (dict_merge common_one (extract_transaction_details (namespaces doc_fanout) tx_a))
        ''Amount'' = Some (Some ''499.00'')"
    by code_simp
  have "map_of common_one ''Currency'' = Some (Some ''EUR'')"
    by (simp add: common_one_def)
  with currency_unchanged_by_merge [OF c, of tx_a] c a m show ?thesis by simp
qed

section \<open>Lookup in filtered and merged records\<close>

lemma map_of_drop_none:
  "distinct (map fst d) \<Longrightarrow>
     map_of (drop_none d) k = (case map_of d k of Some (Some v) \<Rightarrow> Some (Some v) | _ \<Rightarrow> None)"
  unfolding drop_none_def
proof (induction d)
  case Nil
  then show ?case by simp
next
  case (Cons x d)
  then show ?case
    by (cases x) (auto simp: map_of_eq_None_iff image_iff split: option.splits)
qed










section \<open>The keys of a transaction record\<close>




section \<open>Missing required fields\<close>

lemma missing_required_common:
  "find_first (namespaces p) [Tag ''AcctSvcrRef''] e = None
   \<or> find_first (namespaces p) [Tag ''Amt''] e = None
   \<or> find_first (namespaces p) [Tag ''CdtDbtInd''] e = None
   \<or> find_first (namespaces p) [Tag ''BookgDt'', Star] e = None
   \<or> find_first (namespaces p) [Tag ''ValDt'', Star] e = None \<Longrightarrow>
   extract_common_entry_data p e s = Inl AttributeError"
  by (auto simp: extract_common_entry_data_def Let_def split: option.splits)

text \<open>
  Claim C3, as amended. For every entry of a located statement in which the node of
  TransactionID, Amount, CreditDebitIndicator, BookingDate or ValueDate is not found,
  \<open>get_transactions\<close> raises \<open>AttributeError\<close>, Python's error for the attribute \<open>.text\<close>
  of \<open>None\<close>, and not \<open>Camt053ParseError\<close>.
\<close>

theorem missing_required_field_raises_attribute_error:
  assumes "find_statements_or_reports p = Inr statements"
    and "s \<in> set statements"
    and "e \<in> set (findall (namespaces p) [Tag ''Ntry''] s)"
    and "find_first (namespaces p) [Tag ''AcctSvcrRef''] e = None
       \<or> find_first (namespaces p) [Tag ''Amt''] e = None
       \<or> find_first (namespaces p) [Tag ''CdtDbtInd''] e = None
       \<or> find_first (namespaces p) [Tag ''BookgDt'', Star] e = None
       \<or> find_first (namespaces p) [Tag ''ValDt'', Star] e = None"
  shows "get_transactions p = Inl AttributeError"
proof -
  have "extract_common_entry_data p e s = Inl AttributeError"
    using assms(4) by (rule missing_required_common)
  then have "extract_transaction p e s = Inl AttributeError"
    by (simp add: extract_transaction_def)
  from statement_loop_fail [OF assms(2,3) this] assms(1) show ?thesis
    by (simp add: get_transactions_def)
qed

theorem missing_required_field_raises_attribute_error_witness:
  "find_statements_or_reports doc_no_booking = Inr [stmt_no_booking]
   \<and> findall (namespaces doc_no_booking) [Tag ''Ntry''] stmt_no_booking
       = [entry_one, entry_no_booking]
   \<and> find_first (namespaces doc_no_booking) [Tag ''BookgDt'', Star] entry_no_booking = None
   \<and> get_transactions doc_no_booking = Inl AttributeError"
proof -
  have st: "find_statements_or_reports doc_no_booking = Inr [stmt_no_booking]"
    by code_simp
  have en: "findall (namespaces doc_no_booking) [Tag ''Ntry''] stmt_no_booking
       = [entry_one, entry_no_booking]"
    by code_simp
  have no: "find_first (namespaces doc_no_booking) [Tag ''BookgDt'', Star] entry_no_booking = None"
    by code_simp
  have "get_transactions doc_no_booking = Inl AttributeError"
    using missing_required_field_raises_attribute_error
      [OF st, of stmt_no_booking entry_no_booking] en no
    by simp
  with st en no show ?thesis by blast
qed

text \<open>An entry without booking date: the error is not the parser's own.\<close>

theorem missing_booking_date_counterexample:
  "find_first (namespaces doc_no_booking) [Tag ''BookgDt'', Star] entry_no_booking = None
   \<and> get_transactions doc_no_booking = Inl AttributeError
   \<and> get_transactions doc_no_booking \<noteq> Inl Camt053ParseError"
  by code_simp

section \<open>The group header\<close>

text \<open>
  Claim C7, as amended. \<open>get_group_header\<close> returns the empty record when the tree has
  no header node; when the first header node lacks the message id or the creation time
  it raises \<open>AttributeError\<close>, not \<open>Camt053ParseError\<close>; otherwise it returns the two
  texts.
\<close>

theorem group_header_cases:
  "(find_first (namespaces p) [Tag ''GrpHdr''] (tree p) = None \<longrightarrow> get_group_header p = Inr [])
   \<and> (\<forall>g. find_first (namespaces p) [Tag ''GrpHdr''] (tree p) = Some g
          \<and> (find_first (namespaces p) [Tag ''MsgId''] g = None
             \<or> find_first (namespaces p) [Tag ''CreDtTm''] g = None) \<longrightarrow>
        get_group_header p = Inl AttributeError)
   \<and> (\<forall>g m c. find_first (namespaces p) [Tag ''GrpHdr''] (tree p) = Some g
          \<and> find_first (namespaces p) [Tag ''MsgId''] g = Some m
          \<and> find_first (namespaces p) [Tag ''CreDtTm''] g = Some c \<longrightarrow>
        get_group_header p =
          Inr [(''MessageID'', node_text m), (''CreationDateTime'', node_text c)])"
  by (auto simp: get_group_header_def extract_group_header_def split: option.splits)

theorem group_header_cases_witness:
  "find_first (namespaces doc_fanout) [Tag ''GrpHdr''] (tree doc_fanout) = None
   \<and> get_group_header doc_fanout = Inr []
   \<and> find_first (namespaces doc_hdr_no_time) [Tag ''GrpHdr''] (tree doc_hdr_no_time)
       = Some hdr_no_time
   \<and> find_first (namespaces doc_hdr_no_time) [Tag ''CreDtTm''] hdr_no_time = None
   \<and> get_group_header doc_hdr_no_time = Inl AttributeError"
proof -
  have a: "find_first (namespaces doc_fanout) [Tag ''GrpHdr''] (tree doc_fanout) = None"
    by code_simp
  have b: "find_first (namespaces doc_hdr_no_time) [Tag ''GrpHdr''] (tree doc_hdr_no_time)
       = Some hdr_no_time"
    by code_simp
  have c: "find_first (namespaces doc_hdr_no_time) [Tag ''CreDtTm''] hdr_no_time = None"
    by code_simp
  from group_header_cases [of doc_fanout] a have "get_group_header doc_fanout = Inr []"
    by blast
  moreover from group_header_cases [of doc_hdr_no_time] b c
  have "get_group_header doc_hdr_no_time = Inl AttributeError"
    by blast
  ultimately show ?thesis using a b c by blast
qed

text \<open>A header without creation time.\<close>

theorem group_header_missing_child_counterexample:
  "find_first (namespaces doc_hdr_no_time) [Tag ''GrpHdr''] (tree doc_hdr_no_time)
       = Some hdr_no_time
   \<and> find_first (namespaces doc_hdr_no_time) [Tag ''CreDtTm''] hdr_no_time = None
   \<and> get_group_header doc_hdr_no_time = Inl AttributeError
   \<and> get_group_header doc_hdr_no_time \<noteq> Inl Camt053ParseError"
  by code_simp

section \<open>Remittance information\<close>

lemma detail_data_distinct: "distinct (map fst (detail_data ns d))"
  by (simp add: detail_data_keys)

lemma detail_data_full:
  "map_of (detail_data ns d) ''RemittanceInformationFull'' = Some (remittance_full ns d)"
  by (simp add: detail_data_def)

lemma details_full:
  "map_of (extract_transaction_details ns d) ''RemittanceInformationFull''
     = map_option Some (remittance_full ns d)"
proof (cases "find_first ns [Tag ''RmtInf'', Tag ''Strd''] d")
  case None
  then show ?thesis
    by (simp add: extract_transaction_details_def Let_def map_of_drop_none detail_data_distinct
        detail_data_full split: option.splits)
next
  case (Some s)
  have "distinct (map fst (dict_set ''AdditionalRemittanceInformation''
           (text_or_none (find_first ns [Tag ''AddtlRmtInf''] s))
           (dict_set ''RemittanceInformation''
              (text_or_none (find_first ns [Tag ''CdtrRefInf'', Tag ''Ref''] s))
              (detail_data ns d))))"
    by (simp only: stored_data_keys) (simp add: detail_keys_def)
  with Some show ?thesis
    by (simp add: extract_transaction_details_def Let_def map_of_drop_none dict_set_def
        update_conv' detail_data_full split: option.splits)
qed

lemma details_structured:
  assumes "find_first ns [Tag ''RmtInf'', Tag ''Strd''] d = Some s"
  shows "map_of (extract_transaction_details ns d) ''RemittanceInformation''
       = map_option Some (text_or_none (find_first ns [Tag ''CdtrRefInf'', Tag ''Ref''] s))"
    and "map_of (extract_transaction_details ns d) ''AdditionalRemittanceInformation''
       = map_option Some (text_or_none (find_first ns [Tag ''AddtlRmtInf''] s))"
proof -
  have dist: "distinct (map fst (dict_set ''AdditionalRemittanceInformation''
           (text_or_none (find_first ns [Tag ''AddtlRmtInf''] s))
           (dict_set ''RemittanceInformation''
              (text_or_none (find_first ns [Tag ''CdtrRefInf'', Tag ''Ref''] s))
              (detail_data ns d))))"
    by (simp only: stored_data_keys) (simp add: detail_keys_def)
  with assms show "map_of (extract_transaction_details ns d) ''RemittanceInformation''
       = map_option Some (text_or_none (find_first ns [Tag ''CdtrRefInf'', Tag ''Ref''] s))"
    by (simp add: extract_transaction_details_def Let_def map_of_drop_none dict_set_def
        update_conv' split: option.splits)
  from dist assms show "map_of (extract_transaction_details ns d) ''AdditionalRemittanceInformation''
       = map_option Some (text_or_none (find_first ns [Tag ''AddtlRmtInf''] s))"
    by (simp add: extract_transaction_details_def Let_def map_of_drop_none dict_set_def
        update_conv' split: option.splits)
qed

lemma key_present_iff: "k \<in> fst ` set d \<longleftrightarrow> map_of d k \<noteq> None"
  by (simp add: map_of_eq_None_iff)

text \<open>
  Claim C5, as amended. For a transaction-detail whose first structured remittance
  block is \<open>strd\<close>: RemittanceInformation is the text of the block's creditor reference,
  and the key is dropped when the reference is missing, whatever the unstructured
  lines; AdditionalRemittanceInformation is present if and only if the block's
  free-text child is present and has a text; RemittanceInformationFull is what the
  unstructured lines alone give.
\<close>

theorem structured_remittance_block:
  assumes "find_first ns [Tag ''RmtInf'', Tag ''Strd''] tx_detail = Some strd"
  shows "map_of (extract_transaction_details ns tx_detail) ''RemittanceInformation''
       = map_option Some (text_or_none (find_first ns [Tag ''CdtrRefInf'', Tag ''Ref''] strd))
    \<and> (find_first ns [Tag ''CdtrRefInf'', Tag ''Ref''] strd = None \<longrightarrow>
         ''RemittanceInformation'' \<notin> fst ` set (extract_transaction_details ns tx_detail))
    \<and> map_of (extract_transaction_details ns tx_detail) ''AdditionalRemittanceInformation''
       = map_option Some (text_or_none (find_first ns [Tag ''AddtlRmtInf''] strd))
    \<and> (''AdditionalRemittanceInformation'' \<in> fst ` set (extract_transaction_details ns tx_detail)
         \<longleftrightarrow> (\<exists>a. find_first ns [Tag ''AddtlRmtInf''] strd = Some a \<and> node_text a \<noteq> None))
    \<and> map_of (extract_transaction_details ns tx_detail) ''RemittanceInformationFull''
       = map_option Some (remittance_full ns tx_detail)"
proof -
  note s = details_structured [OF assms]
  have "find_first ns [Tag ''CdtrRefInf'', Tag ''Ref''] strd = None \<longrightarrow>
         ''RemittanceInformation'' \<notin> fst ` set (extract_transaction_details ns tx_detail)"
    by (simp add: key_present_iff s(1) text_or_none_def)
  moreover have "''AdditionalRemittanceInformation''
         \<in> fst ` set (extract_transaction_details ns tx_detail)
         \<longleftrightarrow> (\<exists>a. find_first ns [Tag ''AddtlRmtInf''] strd = Some a \<and> node_text a \<noteq> None)"
    by (auto simp: key_present_iff s(2) text_or_none_def split: option.splits)
  ultimately show ?thesis using s details_full [of ns tx_detail] by blast
qed

theorem structured_remittance_block_witness:
  "find_first (Some camt_ns) [Tag ''RmtInf'', Tag ''Strd''] tx_no_ref = Some strd_no_ref
   \<and> find_first (Some camt_ns) [Tag ''CdtrRefInf'', Tag ''Ref''] strd_no_ref = None
   \<and> text_or_none (find_first (Some camt_ns) [Tag ''RmtInf'', Tag ''Ustrd''] tx_no_ref)
       = Some ''free''
   \<and> ''RemittanceInformation'' \<notin> fst ` set (extract_transaction_details (Some camt_ns) tx_no_ref)
   \<and> map_of (extract_transaction_details (Some camt_ns) tx_no_ref)
        ''AdditionalRemittanceInformation'' = Some (Some ''more'')
   \<and> map_of (extract_transaction_details (Some camt_ns) tx_no_ref)
        ''RemittanceInformationFull'' = Some (Some ''free'')"
proof -
  have a: "find_first (Some camt_ns) [Tag ''RmtInf'', Tag ''Strd''] tx_no_ref = Some strd_no_ref"
    by code_simp
  have b: "find_first (Some camt_ns) [Tag ''CdtrRefInf'', Tag ''Ref''] strd_no_ref = None"
    by code_simp
  have c: "text_or_none (find_first (Some camt_ns) [Tag ''RmtInf'', Tag ''Ustrd''] tx_no_ref)
       = Some ''free''"
    by code_simp
  have d: "text_or_none (find_first (Some camt_ns) [Tag ''AddtlRmtInf''] strd_no_ref)
       = Some ''more''"
    by code_simp
  have e: "remittance_full (Some camt_ns) tx_no_ref = Some ''free''"
    by code_simp
  from structured_remittance_block [OF a] a b c d e show ?thesis by simp
qed

text \<open>A structured block whose free-text child is an empty element: the child is
  present, the key is not.\<close>

theorem empty_additional_info_counterexample:
  "find_first (Some camt_ns) [Tag ''RmtInf'', Tag ''Strd''] tx_empty_addtl
       = Some strd_empty_addtl
   \<and> find_first (Some camt_ns) [Tag ''AddtlRmtInf''] strd_empty_addtl
       = Some (el ''AddtlRmtInf'' None [])
   \<and> extract_transaction_details (Some camt_ns) tx_empty_addtl
       = [(''RemittanceInformation'', Some ''REF1''),
          (''RemittanceInformationFull'', Some ''free'')]"
  by code_simp

lemma stripped_texts_eq:
  "stripped_texts lines = map strip (filter (\<lambda>t. t \<noteq> []) (List.map_filter node_text lines))"
  by (induction lines) (auto split: option.splits)

lemma texts_of_lines:
  "List.map_filter node_text lines = List.map_filter id (map node_text lines)"
  by (induction lines) (auto split: option.splits)

lemma strip_Nil: "strip [] = []"
  by (simp add: strip_def)

lemma trim_then_select:
  "list_all (\<lambda>t. t = [] \<or> strip t \<noteq> []) ts \<Longrightarrow>
     filter (\<lambda>t. t \<noteq> []) (map strip ts) = map strip (filter (\<lambda>t. t \<noteq> []) ts)"
  by (induction ts) (auto simp: strip_Nil)

text \<open>
  Claim C6, as amended. RemittanceInformationFull is the single-space join, in document
  order, of the trimmed texts of the unstructured lines whose text is non-empty before
  trimming, so that a line of white space alone gives an empty segment; the key is
  absent when there is no unstructured line. When no line is white space alone, this
  is the join of the trimmed texts that are non-empty; lines \<open>a\<close>, \<open>b\<close>, \<open>c\<close> give
  \<open>a b c\<close> and the single line \<open>x\<close> gives \<open>x\<close>.
\<close>

theorem remittance_information_full:
  "map_of (extract_transaction_details ns tx_detail) ''RemittanceInformationFull'' =
     (if findall ns [Tag ''RmtInf'', Tag ''Ustrd''] tx_detail = [] then None
      else Some (Some (join '' ''
             (map strip (filter (\<lambda>t. t \<noteq> [])
                (List.map_filter node_text
                   (findall ns [Tag ''RmtInf'', Tag ''Ustrd''] tx_detail)))))))
   \<and> (findall ns [Tag ''RmtInf'', Tag ''Ustrd''] tx_detail = [] \<longrightarrow>
        ''RemittanceInformationFull'' \<notin> fst ` set (extract_transaction_details ns tx_detail))
   \<and> (findall ns [Tag ''RmtInf'', Tag ''Ustrd''] tx_detail \<noteq> []
        \<and> list_all (\<lambda>t. t = [] \<or> strip t \<noteq> [])
             (List.map_filter node_text (findall ns [Tag ''RmtInf'', Tag ''Ustrd''] tx_detail)) \<longrightarrow>
        map_of (extract_transaction_details ns tx_detail) ''RemittanceInformationFull''
          = Some (Some (join '' ''
              (spec_trimmed_lines (findall ns [Tag ''RmtInf'', Tag ''Ustrd''] tx_detail)))))
   \<and> (map node_text (findall ns [Tag ''RmtInf'', Tag ''Ustrd''] tx_detail)
         = [Some ''a'', Some ''b'', Some ''c''] \<longrightarrow>
        map_of (extract_transaction_details ns tx_detail) ''RemittanceInformationFull''
          = Some (Some ''a b c''))
   \<and> (map node_text (findall ns [Tag ''RmtInf'', Tag ''Ustrd''] tx_detail) = [Some ''x''] \<longrightarrow>
        map_of (extract_transaction_details ns tx_detail) ''RemittanceInformationFull''
          = Some (Some ''x''))"
proof -
  let ?lines = "findall ns [Tag ''RmtInf'', Tag ''Ustrd''] tx_detail"
  let ?key = "map_of (extract_transaction_details ns tx_detail) ''RemittanceInformationFull''"
  have main: "?key =
     (if ?lines = [] then None
      else Some (Some (join '' ''
             (map strip (filter (\<lambda>t. t \<noteq> []) (List.map_filter node_text ?lines))))))"
    by (simp add: details_full remittance_full_def stripped_texts_eq)
  have absent: "?lines = [] \<longrightarrow>
      ''RemittanceInformationFull'' \<notin> fst ` set (extract_transaction_details ns tx_detail)"
    by (simp add: key_present_iff main)
  have agree: "?lines \<noteq> []
        \<and> list_all (\<lambda>t. t = [] \<or> strip t \<noteq> []) (List.map_filter node_text ?lines) \<longrightarrow>
      ?key = Some (Some (join '' '' (spec_trimmed_lines ?lines)))"
    by (simp add: main spec_trimmed_lines_def trim_then_select)
  have abc: "map node_text ?lines = [Some ''a'', Some ''b'', Some ''c''] \<longrightarrow>
      ?key = Some (Some ''a b c'')"
  proof
    assume t: "map node_text ?lines = [Some ''a'', Some ''b'', Some ''c'']"
    then have "?lines \<noteq> []" by auto
    moreover from t have "List.map_filter node_text ?lines = [''a'', ''b'', ''c'']"
      by (simp add: texts_of_lines)
    ultimately show "?key = Some (Some ''a b c'')"
      by (simp add: main strip_def isspace_def)
  qed
  have x: "map node_text ?lines = [Some ''x''] \<longrightarrow> ?key = Some (Some ''x'')"
  proof
    assume t: "map node_text ?lines = [Some ''x'']"
    then have "?lines \<noteq> []" by auto
    moreover from t have "List.map_filter node_text ?lines = [''x'']"
      by (simp add: texts_of_lines)
    ultimately show "?key = Some (Some ''x'')"
      by (simp add: main strip_def isspace_def)
  qed
  from main absent agree abc x show ?thesis by blast
qed

theorem remittance_information_full_witness:
  "map node_text (findall (Some camt_ns) [Tag ''RmtInf'', Tag ''Ustrd''] tx_three_lines)
       = [Some ''a'', Some ''b'', Some ''c'']
   \<and> map_of (extract_transaction_details (Some camt_ns) tx_three_lines)
        ''RemittanceInformationFull'' = Some (Some ''a b c'')
   \<and> map node_text (findall (Some camt_ns) [Tag ''RmtInf'', Tag ''Ustrd''] tx_one_line)
       = [Some ''x'']
   \<and> map_of (extract_transaction_details (Some camt_ns) tx_one_line)
        ''RemittanceInformationFull'' = Some (Some ''x'')
   \<and> findall (Some camt_ns) [Tag ''RmtInf'', Tag ''Ustrd''] tx_b = []
   \<and> ''RemittanceInformationFull'' \<notin> fst ` set (extract_transaction_details (Some camt_ns) tx_b)
   \<and> map node_text (findall (Some camt_ns) [Tag ''RmtInf'', Tag ''Ustrd''] tx_a)
       = [Some '' a '', Some ''b'']
   \<and> join '' '' (spec_trimmed_lines (findall (Some camt_ns) [Tag ''RmtInf'', Tag ''Ustrd''] tx_a))
       = ''a b''
   \<and> map_of (extract_transaction_details (Some camt_ns) tx_a)
        ''RemittanceInformationFull'' = Some (Some ''a b'')
   \<and> map node_text (findall (Some camt_ns) [Tag ''RmtInf'', Tag ''Ustrd''] tx_blank_line)
       = [Some ''a'', Some '' '', Some ''b'']
   \<and> map_of (extract_transaction_details (Some camt_ns) tx_blank_line)
        ''RemittanceInformationFull'' = Some (Some ''a  b'')"
proof -
  have a: "map node_text (findall (Some camt_ns) [Tag ''RmtInf'', Tag ''Ustrd''] tx_three_lines)
       = [Some ''a'', Some ''b'', Some ''c'']"
    by code_simp
  have b: "map node_text (findall (Some camt_ns) [Tag ''RmtInf'', Tag ''Ustrd''] tx_one_line)
       = [Some ''x'']"
    by code_simp
  have c: "findall (Some camt_ns) [Tag ''RmtInf'', Tag ''Ustrd''] tx_b = []"
    by code_simp
  have d: "map node_text (findall (Some camt_ns) [Tag ''RmtInf'', Tag ''Ustrd''] tx_a)
       = [Some '' a '', Some ''b'']"
    by code_simp
  have d1: "findall (Some camt_ns) [Tag ''RmtInf'', Tag ''Ustrd''] tx_a \<noteq> []"
    using d by auto
  have d2: "list_all (\<lambda>t. t = [] \<or> strip t \<noteq> [])
      (List.map_filter node_text (findall (Some camt_ns) [Tag ''RmtInf'', Tag ''Ustrd''] tx_a))"
    by code_simp
  have d3: "join '' '' (spec_trimmed_lines
       (findall (Some camt_ns) [Tag ''RmtInf'', Tag ''Ustrd''] tx_a)) = ''a b''"
    by code_simp
  have e: "map node_text (findall (Some camt_ns) [Tag ''RmtInf'', Tag ''Ustrd''] tx_blank_line)
       = [Some ''a'', Some '' '', Some ''b'']"
    by code_simp
  have e1: "findall (Some camt_ns) [Tag ''RmtInf'', Tag ''Ustrd''] tx_blank_line \<noteq> []"
    using e by auto
  have e2: "join '' '' (map strip (filter (\<lambda>t. t \<noteq> [])
      (List.map_filter node_text
         (findall (Some camt_ns) [Tag ''RmtInf'', Tag ''Ustrd''] tx_blank_line)))) = ''a  b''"
    by code_simp
  from remittance_information_full [of "Some camt_ns" tx_three_lines] a
  have 1: "map_of (extract_transaction_details (Some camt_ns) tx_three_lines)
        ''RemittanceInformationFull'' = Some (Some ''a b c'')"
    by blast
  from remittance_information_full [of "Some camt_ns" tx_one_line] b
  have 2: "map_of (extract_transaction_details (Some camt_ns) tx_one_line)
        ''RemittanceInformationFull'' = Some (Some ''x'')"
    by blast
  from remittance_information_full [of "Some camt_ns" tx_b] c
  have 3: "''RemittanceInformationFull''
      \<notin> fst ` set (extract_transaction_details (Some camt_ns) tx_b)"
    by blast
  from remittance_information_full [of "Some camt_ns" tx_a] d1 d2
  have "map_of (extract_transaction_details (Some camt_ns) tx_a)
        ''RemittanceInformationFull'' = Some (Some (join '' '' (spec_trimmed_lines
          (findall (Some camt_ns) [Tag ''RmtInf'', Tag ''Ustrd''] tx_a))))"
    by blast
  then have 4: "map_of (extract_transaction_details (Some camt_ns) tx_a)
        ''RemittanceInformationFull'' = Some (Some ''a b'')"
    by (simp only: d3)
  from remittance_information_full [of "Some camt_ns" tx_blank_line]
  have "map_of (extract_transaction_details (Some camt_ns) tx_blank_line)
        ''RemittanceInformationFull'' =
     (if findall (Some camt_ns) [Tag ''RmtInf'', Tag ''Ustrd''] tx_blank_line = [] then None
      else Some (Some (join '' ''
             (map strip (filter (\<lambda>t. t \<noteq> [])
                (List.map_filter node_text
                   (findall (Some camt_ns) [Tag ''RmtInf'', Tag ''Ustrd''] tx_blank_line)))))))"
    by blast
  then have 5: "map_of (extract_transaction_details (Some camt_ns) tx_blank_line)
        ''RemittanceInformationFull'' = Some (Some ''a  b'')"
    by (simp only: e1 e2 if_False)
  from a b c d d3 e 1 2 3 4 5 show ?thesis by blast
qed

text \<open>Lines \<open>a\<close>, a blank and \<open>b\<close>: trimming first and joining the non-empty texts
  gives \<open>a b\<close>, the code gives \<open>a\<close>, two blanks and \<open>b\<close>.\<close>

theorem blank_line_counterexample:
  "map node_text (findall (Some camt_ns) [Tag ''RmtInf'', Tag ''Ustrd''] tx_blank_line)
       = [Some ''a'', Some '' '', Some ''b'']
   \<and> join '' ''
        (spec_trimmed_lines (findall (Some camt_ns) [Tag ''RmtInf'', Tag ''Ustrd''] tx_blank_line))
       = ''a b''
   \<and> map_of (extract_transaction_details (Some camt_ns) tx_blank_line)
        ''RemittanceInformationFull'' = Some (Some ''a  b'')"
  by code_simp

section \<open>The sign of a debit balance\<close>

lemma locator_error:
  "find_statements_or_reports p = Inl e \<Longrightarrow> e = Camt053ParseError"
  by (simp add: find_statements_or_reports_eq split: if_splits)

lemma apply_sign_debit:
  "apply_sign (Some t) (Some ''DBIT'') =
     Some (case str_neg_float t of None \<Rightarrow> t | Some negated \<Rightarrow> negated)"
proof (cases "t = []")
  case True
  have "str_neg_float [] = None" by code_simp
  with True show ?thesis by (simp add: apply_sign_def)
next
  case False
  then show ?thesis by (simp add: apply_sign_def split: option.splits)
qed

text \<open>
  Claim C2, as amended. For every balance node with indicator \<open>DBIT\<close>, amount text \<open>t\<close>
  and type code OPBD or CLBD, the stored balance is what Python prints for the negated
  float of \<open>t\<close>, which is not the text of \<open>t\<close> with a sign: \<open>100.00\<close> becomes \<open>-100.0\<close>;
  it is \<open>t\<close> itself when \<open>float\<close> raises \<open>ValueError\<close>, as for \<open>abc\<close>; and
  \<open>get_statement_info\<close> raises nothing but the locator's error.
\<close>

theorem debit_balance_sign:
  assumes "text_or_none (find_first ns [Tag ''CdtDbtInd''] b) = Some ''DBIT''"
    and "text_or_none (find_first ns [Tag ''Amt''] b) = Some t"
    and "text_or_none (find_first ns [Tag ''Tp'', Tag ''CdOrPrtry'', Tag ''Cd''] b) = Some code"
    and "(code, key) \<in> set [(''OPBD'', ''OpeningBalance''), (''CLBD'', ''ClosingBalance'')]"
  shows "map_of (balance_step ns b r) key =
        Some (Some (case str_neg_float t of None \<Rightarrow> t | Some negated \<Rightarrow> negated))
    \<and> (\<forall>p e. get_statement_info p = Inl e \<longrightarrow>
          e = Camt053ParseError \<and> find_statements_or_reports p = Inl Camt053ParseError)
    \<and> str_neg_float ''100.00'' = Some ''-100.0''
    \<and> str_neg_float ''abc'' = None"
proof -
  have stored: "map_of (balance_step ns b r) key =
        Some (Some (case str_neg_float t of None \<Rightarrow> t | Some negated \<Rightarrow> negated))"
    using assms
    by (auto simp: balance_step_def Let_def dict_set_def update_conv' apply_sign_debit)
  have raises: "\<forall>p e. get_statement_info p = Inl e \<longrightarrow>
          e = Camt053ParseError \<and> find_statements_or_reports p = Inl Camt053ParseError"
    by (auto simp: get_statement_info_def split: sum.splits dest: locator_error)
  have "str_neg_float ''100.00'' = Some ''-100.0''" by code_simp
  moreover have "str_neg_float ''abc'' = None" by code_simp
  ultimately show ?thesis using stored raises by blast
qed

theorem debit_balance_sign_witness:
  "text_or_none (find_first (Some camt_ns) [Tag ''CdtDbtInd''] bal_opening_text) = Some ''DBIT''
   \<and> text_or_none (find_first (Some camt_ns) [Tag ''Amt''] bal_opening_text) = Some ''abc''
   \<and> str_neg_float ''abc'' = None
   \<and> map_of (balance_step (Some camt_ns) bal_opening_text empty_summary) ''OpeningBalance''
       = Some (Some ''abc'')
   \<and> text_or_none (find_first (Some camt_ns) [Tag ''Amt''] bal_closing_debit) = Some ''100.00''
   \<and> str_neg_float ''100.00'' = Some ''-100.0''
   \<and> map_of (balance_step (Some camt_ns) bal_closing_debit empty_summary) ''ClosingBalance''
       = Some (Some ''-100.0'')
   \<and> str_neg_float ''0.00001'' = Some ''-1e-05''
   \<and> str_neg_float ''1e5'' = Some ''-100000.0''
   \<and> str_neg_float ''1234567890123456.78'' = Some ''-1234567890123456.8''
   \<and> str_neg_float ''1_0'' = Some ''-10.0''
   \<and> str_neg_float ''a_b'' = None
   \<and> str_neg_float ''-inf'' = Some ''inf''
   \<and> str_neg_float [CHR 0xA0, CHR ''2'', CHR ''.'', CHR ''5'', CHR ''0''] = Some ''-2.5''"
proof -
  have i: "text_or_none (find_first (Some camt_ns) [Tag ''CdtDbtInd''] bal_opening_text)
      = Some ''DBIT''"
    by code_simp
  have a: "text_or_none (find_first (Some camt_ns) [Tag ''Amt''] bal_opening_text) = Some ''abc''"
    by code_simp
  have c: "text_or_none (find_first (Some camt_ns) [Tag ''Tp'', Tag ''CdOrPrtry'', Tag ''Cd'']
      bal_opening_text) = Some ''OPBD''"
    by code_simp
  have i': "text_or_none (find_first (Some camt_ns) [Tag ''CdtDbtInd''] bal_closing_debit)
      = Some ''DBIT''"
    by code_simp
  have a': "text_or_none (find_first (Some camt_ns) [Tag ''Amt''] bal_closing_debit)
      = Some ''100.00''"
    by code_simp
  have c': "text_or_none (find_first (Some camt_ns) [Tag ''Tp'', Tag ''CdOrPrtry'', Tag ''Cd'']
      bal_closing_debit) = Some ''CLBD''"
    by code_simp
  have k: "(''OPBD'', ''OpeningBalance'')
      \<in> set [(''OPBD'', ''OpeningBalance''), (''CLBD'', ''ClosingBalance'')]"
    by simp
  have k': "(''CLBD'', ''ClosingBalance'')
      \<in> set [(''OPBD'', ''OpeningBalance''), (''CLBD'', ''ClosingBalance'')]"
    by simp
  note o = debit_balance_sign [OF i a c k, of empty_summary]
  note cl = debit_balance_sign [OF i' a' c' k', of empty_summary]
  from o have ve: "str_neg_float ''abc'' = None"
    and fl: "str_neg_float ''100.00'' = Some ''-100.0''"
    by blast+
  from o have "map_of (balance_step (Some camt_ns) bal_opening_text empty_summary)
      ''OpeningBalance'' = Some (Some ''abc'')"
    by (simp add: ve)
  moreover from cl
  have "map_of (balance_step (Some camt_ns) bal_closing_debit empty_summary)
      ''ClosingBalance'' = Some (Some ''-100.0'')"
    by (simp add: fl)
  moreover have "str_neg_float ''0.00001'' = Some ''-1e-05''" by code_simp
  moreover have "str_neg_float ''1e5'' = Some ''-100000.0''" by code_simp
  moreover have "str_neg_float ''1234567890123456.78'' = Some ''-1234567890123456.8''"
    by code_simp
  moreover have "str_neg_float ''1_0'' = Some ''-10.0''" by code_simp
  moreover have "str_neg_float ''a_b'' = None" by code_simp
  moreover have "str_neg_float ''-inf'' = Some ''inf''" by code_simp
  moreover have "str_neg_float [CHR 0xA0, CHR ''2'', CHR ''.'', CHR ''5'', CHR ''0'']
      = Some ''-2.5''"
    by code_simp
  ultimately show ?thesis using i a a' ve fl by blast
qed

text \<open>The closing balance \<open>100.00\<close> of the example statement is stored as \<open>-100.0\<close>.\<close>

theorem debit_balance_text_counterexample:
  "text_or_none (find_first (Some camt_ns) [Tag ''CdtDbtInd''] bal_closing_debit) = Some ''DBIT''
   \<and> text_or_none (find_first (Some camt_ns) [Tag ''Amt''] bal_closing_debit) = Some ''100.00''
   \<and> get_statement_info doc_debit =
       Inr [[(''IBAN'', Some ''GB33''), (''Currency'', None),
             (''OpeningBalance'', Some ''abc''), (''ClosingBalance'', Some ''-100.0''),
             (''OpeningBalanceDate'', Some ''2025-07-01''),
             (''ClosingBalanceDate'', Some ''2025-07-31'')]]"
  by code_simp

end
